theory Spec2Isabelle
  imports Main
begin

section \<open>The plugin base class of NcatBot (ncatbot/plugin/base\_plugin.py)\<close>

text \<open>
  The development embeds \<^verbatim>\<open>BasePlugin\<close>: its constructor, the load and unload
  sequences and the handler registry. Python mutates the instance and its collaborators
  in place, also on the way to an exception, so every operation takes the instance and
  the world and returns both together with its result; a result is \<open>Inl e\<close> for a
  raised exception \<open>e\<close> and \<open>Inr v\<close> for a returned value \<open>v\<close>.
\<close>

subsection \<open>Exceptions\<close>

text \<open>
  The two messages of the constructor's \<^verbatim>\<open>ValueError\<close> are Chinese literals
  in the source (missing plugin name, missing plugin version number); they are kept as
  constructors.
\<close>

datatype msg = Missing_name | Missing_version

datatype exn =
    ValueError msg
  | AttributeError string
  | TypeError
  | PluginLoadError "string option" "string list"
  | RuntimeError "string option" exn
  | FileTypeUnknownError
  | LoadError
  | SaveError
  | FileNotFoundError
  | NotADirectoryError
  | FileExistsError
  | IsADirectoryError
  | UserError string

subsection \<open>Paths and the filesystem\<close>

text \<open>
  A resolved path is the list of its components below the root. The filesystem maps a
  path to what is there; the root is always a directory.
\<close>

type_synonym path = "string list"

datatype node = Dir | File string

type_synonym filesystem = "path \<Rightarrow> node option"

definition node_at :: "filesystem \<Rightarrow> path \<Rightarrow> node option" where
  "node_at fs p = (if p = [] then Some Dir else fs p)"

text \<open>\<^verbatim>\<open>Path.exists()\<close> and \<^verbatim>\<open>Path.is_dir()\<close>.\<close>

definition exists_path :: "filesystem \<Rightarrow> path \<Rightarrow> bool" where
  "exists_path fs p = (node_at fs p \<noteq> None)"

definition is_dir :: "filesystem \<Rightarrow> path \<Rightarrow> bool" where
  "is_dir fs p = (node_at fs p = Some Dir)"

text \<open>
  \<^verbatim>\<open>Path.mkdir(parents=True)\<close>: walking down from the root (\<open>pre\<close> is the part
  already walked), a missing component is created, a regular file on the way is
  \<^verbatim>\<open>NotADirectoryError\<close>, and a target that is already there is
  \<^verbatim>\<open>FileExistsError\<close> (\<^verbatim>\<open>exist_ok\<close> is left at its default).
\<close>

fun mkdir_from :: "filesystem \<Rightarrow> path \<Rightarrow> path \<Rightarrow> exn + filesystem" where
  "mkdir_from fs pre [] = (if pre = [] then Inl FileExistsError else Inr fs)"
| "mkdir_from fs pre (c # cs) =
     (case fs (pre @ [c]) of
        None \<Rightarrow> mkdir_from (fs(pre @ [c] \<mapsto> Dir)) (pre @ [c]) cs
      | Some Dir \<Rightarrow> if cs = [] then Inl FileExistsError else mkdir_from fs (pre @ [c]) cs
      | Some (File s) \<Rightarrow> Inl (if cs = [] then FileExistsError else NotADirectoryError))"

definition mkdir_parents :: "filesystem \<Rightarrow> path \<Rightarrow> exn + filesystem" where
  "mkdir_parents fs p = mkdir_from fs [] p"

text \<open>
  \<^verbatim>\<open>open(p, 'w').write(s)\<close>: the parent must be a directory and the target must
  not be one.
\<close>

definition write_file :: "filesystem \<Rightarrow> path \<Rightarrow> string \<Rightarrow> exn + filesystem" where
  "write_file fs p s =
     (if p = [] then Inl IsADirectoryError
      else case node_at fs (butlast p) of
        None \<Rightarrow> Inl FileNotFoundError
      | Some (File x) \<Rightarrow> Inl NotADirectoryError
      | Some Dir \<Rightarrow>
          (case fs p of
             Some Dir \<Rightarrow> Inl IsADirectoryError
           | Some (File x) \<Rightarrow> Inr (fs(p \<mapsto> File s))
           | None \<Rightarrow> Inr (fs(p \<mapsto> File s))))"

text \<open>
  \<^verbatim>\<open>extract_relative_path\<close> (lines 34 to 41): the target relative to the base, or
  \<^verbatim>\<open>None\<close> when the target is not below the base. Both arguments are resolved
  paths here.
\<close>

definition extract_relative_path :: "path \<Rightarrow> path \<Rightarrow> path option" where
  "extract_relative_path base target =
     (if take (length base) target = base then Some (drop (length base) target) else None)"

text \<open>
  \<^verbatim>\<open>path / name\<close> for a string: pathlib splits the string at its slashes and
  drops empty parts and single dots; a string that starts with a slash replaces the
  path. A part \<^verbatim>\<open>..\<close> stays a part, as pathlib keeps it, and the filesystem
  below reads it as a name.
\<close>

fun split_slash :: "string \<Rightarrow> string \<Rightarrow> string list" where
  "split_slash part [] = [part]"
| "split_slash part (c # cs) =
     (if c = CHR ''/'' then part # split_slash [] cs else split_slash (part @ [c]) cs)"

definition path_parts :: "string \<Rightarrow> path" where
  "path_parts s = filter (\<lambda>part. part \<noteq> [] \<and> part \<noteq> ''.'') (split_slash [] s)"

definition join_path :: "path \<Rightarrow> string \<Rightarrow> path" where
  "join_path p s = (if s \<noteq> [] \<and> hd s = CHR ''/'' then path_parts s else p @ path_parts s)"

subsection \<open>Python attributes\<close>

text \<open>
  A class attribute that is only annotated (\<^verbatim>\<open>name: str\<close>) does not exist until
  a subclass assigns it; reading it raises \<^verbatim>\<open>AttributeError\<close>. A declared
  attribute holds \<^verbatim>\<open>None\<close> or a value.
\<close>

datatype 'a attr = Undeclared | Declared "'a option"

definition getattr :: "string \<Rightarrow> 'a attr \<Rightarrow> exn + 'a option" where
  "getattr field a = (case a of Undeclared \<Rightarrow> Inl (AttributeError field) | Declared v \<Rightarrow> Inr v)"

text \<open>\<^verbatim>\<open>not v\<close> for a string or a dict: \<^verbatim>\<open>None\<close> and the empty value are falsy.\<close>

definition falsy :: "'a list option \<Rightarrow> bool" where
  "falsy v = (case v of None \<Rightarrow> True | Some xs \<Rightarrow> xs = [])"

text \<open>How an f-string renders an attribute: \<^verbatim>\<open>str(None)\<close> is \<^verbatim>\<open>'None'\<close>.\<close>

definition py_str :: "string option \<Rightarrow> string" where
  "py_str v = (case v of None \<Rightarrow> ''None'' | Some s \<Rightarrow> s)"

subsection \<open>The persistent store\<close>

text \<open>
  The store's content is a hierarchical mapping.
\<close>

datatype jvalue =
    JNull
  | JBool bool
  | JNum int
  | JStr string
  | JList "jvalue list"
  | JDict "(string \<times> jvalue) list"

type_synonym content = "(string \<times> jvalue) list"

text \<open>
  The serialisation formats belong to the store: which suffixes it knows, and how a
  format reads and writes a mapping, are parameters.
\<close>

record codec =
  known_format :: "string \<Rightarrow> bool"
  decode :: "string \<Rightarrow> string \<Rightarrow> content option"
  encode :: "string \<Rightarrow> content \<Rightarrow> string option"

record loader =
  file_path :: "path option"
  content :: content

text \<open>The suffix of a file name: what follows its last dot.\<close>

definition suffix_of :: "string \<Rightarrow> string" where
  "suffix_of s = (if CHR ''.'' \<in> set s then rev (takeWhile (\<lambda>c. c \<noteq> CHR ''.'') (rev s)) else [])"

definition format_of :: "path \<Rightarrow> string" where
  "format_of p = (if p = [] then [] else suffix_of (last p))"

text \<open>
  Modelled from the spec: \<^verbatim>\<open>UniversalLoader\<close> (ncatbot/utils/io.py) is not among
  the sources. The spec gives its contract: \<^verbatim>\<open>load()\<close> fails with a
  format-unknown error or a load error on a bad or missing file, and the load sequence
  recognises an unknown format, a corrupt file and a missing file; on success the
  content is what the file holds.
\<close>

definition loader_load :: "codec \<Rightarrow> loader \<Rightarrow> filesystem \<Rightarrow> exn + loader" where
  "loader_load cd ld fs =
     (case file_path ld of
        None \<Rightarrow> Inl FileNotFoundError
      | Some p \<Rightarrow>
          (case node_at fs p of
             None \<Rightarrow> Inl FileNotFoundError
           | Some Dir \<Rightarrow> Inl LoadError
           | Some (File s) \<Rightarrow>
               if \<not> known_format cd (format_of p) then Inl FileTypeUnknownError
               else (case decode cd (format_of p) s of
                       None \<Rightarrow> Inl LoadError
                     | Some d \<Rightarrow> Inr (ld\<lparr>content := d\<rparr>))))"

text \<open>
  Modelled from the spec: \<^verbatim>\<open>save()\<close> fails with a format-unknown error or a
  save error, and the unload sequence names an unrecognised format and a missing file
  beside any other save failure; on success the file holds the content.
\<close>

definition loader_save :: "codec \<Rightarrow> loader \<Rightarrow> filesystem \<Rightarrow> exn + filesystem" where
  "loader_save cd ld fs =
     (case file_path ld of
        None \<Rightarrow> Inl FileNotFoundError
      | Some p \<Rightarrow>
          if \<not> known_format cd (format_of p) then Inl FileTypeUnknownError
          else (case encode cd (format_of p) (content ld) of
                  None \<Rightarrow> Inl SaveError
                | Some s \<Rightarrow>
                    (case write_file fs p s of
                       Inl FileNotFoundError \<Rightarrow> Inl FileNotFoundError
                     | Inl e \<Rightarrow> Inl SaveError
                     | Inr fs' \<Rightarrow> Inr fs')))"

subsection \<open>The event bus and the scheduler\<close>

record subscription =
  sub_token :: nat
  sub_type :: string
  sub_handler :: nat
  sub_priority :: int

record event_bus =
  subscriptions :: "subscription list"
  next_token :: nat

text \<open>
  Modelled from the spec: \<^verbatim>\<open>EventBus\<close> (ncatbot/plugin/event.py) is not among the
  sources. The spec gives \<^verbatim>\<open>subscribe(eventType, handler, priority) -> token\<close>
  with an opaque unique token, and the bus keeps a lookup entry keyed by it. A handler is
  an opaque callable, named by a number.
\<close>

definition subscribe :: "event_bus \<Rightarrow> string \<Rightarrow> nat \<Rightarrow> int \<Rightarrow> nat \<times> event_bus" where
  "subscribe b event_type handler priority =
     (next_token b,
      b\<lparr>subscriptions := subscriptions b @
           [\<lparr>sub_token = next_token b, sub_type = event_type,
             sub_handler = handler, sub_priority = priority\<rparr>],
        next_token := Suc (next_token b)\<rparr>)"

text \<open>
  Modelled from the spec: \<^verbatim>\<open>unsubscribe(token) -> void\<close>, with no failure named:
  the entry keyed by the token is dropped, and a token with no entry changes nothing.
\<close>

definition unsubscribe :: "event_bus \<Rightarrow> nat \<Rightarrow> event_bus" where
  "unsubscribe b t = b\<lparr>subscriptions := filter (\<lambda>s. sub_token s \<noteq> t) (subscriptions b)\<rparr>"

definition subscribed :: "event_bus \<Rightarrow> nat \<Rightarrow> bool" where
  "subscribed b t = (t \<in> sub_token ` set (subscriptions b))"

type_synonym event = "string \<times> string"

text \<open>
  The job descriptor that \<^verbatim>\<open>add_scheduled_task\<close> builds (lines 216 to 227).
  Callables are opaque and named by numbers.
\<close>

record job_info =
  job_name :: string
  job_func :: nat
  interval :: string
  max_runs :: "nat option"
  run_count :: nat
  conditions :: "nat list"
  args :: "string list option"
  kwargs :: "(string \<times> string) list"
  args_provider :: "nat option"
  kwargs_provider :: "nat option"

text \<open>
  What the bus answers to a published event and what the scheduler
  (\<^verbatim>\<open>TimeTaskScheduler\<close>, not among the sources) does with a job are parameters:
  each may change its own collaborator and may raise.
\<close>

record collaborators =
  formats :: codec
  publish :: "event \<Rightarrow> event_bus \<Rightarrow> (exn + string list) \<times> event_bus"
  add_job :: "job_info \<Rightarrow> job_info list \<Rightarrow> (exn + bool) \<times> job_info list"
  remove_job :: "string \<Rightarrow> job_info list \<Rightarrow> (exn + bool) \<times> job_info list"

subsection \<open>The world and its journal\<close>

text \<open>
  The positional and keyword arguments of a call, with opaque values.
\<close>

type_synonym call_args = "string list \<times> (string \<times> string) list"

datatype hook = Hook_init | Hook_on_load | Hook_close | Hook_on_close

text \<open>
  The journal lists, in order, what an operation did to the outside: calls on the bus,
  hooks dispatched with \<^verbatim>\<open>asyncio.to_thread\<close> or awaited, console output, and
  calls on the store and the filesystem.
\<close>

datatype effect =
    Subscribe nat string nat int
  | Unsubscribe nat
  | To_thread hook call_args
  | Await hook call_args
  | Log_warning
  | Print_tree "string option" content
  | Load "path option"
  | Save "path option" content
  | Write path string
  | Mkdir path

record world =
  files :: filesystem
  bus :: event_bus
  jobs :: "job_info list"
  journal :: "effect list"

definition emit :: "effect \<Rightarrow> world \<Rightarrow> world" where
  "emit e w = w\<lparr>journal := journal w @ [e]\<rparr>"

subsection \<open>The plugin instance\<close>

text \<open>
  The four override points (lines 304 to 318) are the subclass's code; the base class
  bodies are \<^verbatim>\<open>pass\<close>. The core's control flow depends on a hook only through
  whether it returns (\<open>None\<close>) or raises (\<open>Some e\<close>).
\<close>

record hooks =
  init_hook :: "exn option"
  on_load_hook :: "exn option"
  close_hook :: "call_args \<Rightarrow> exn option"
  on_close_hook :: "call_args \<Rightarrow> exn option"

text \<open>
  What a subclass declares: its identity attributes (lines 66 to 75;
  \<^verbatim>\<open>save_type\<close> inherits \<^verbatim>\<open>'json'\<close> unless overridden), the resolved file of
  its module and its hooks.
\<close>

record plugin_class =
  cls_name :: "string attr"
  cls_version :: "string attr"
  cls_save_type :: "string attr"
  cls_dependencies :: "(string \<times> string) list attr"
  cls_file :: path
  cls_hooks :: hooks

datatype data_attr = Raw_dict content | Store loader

record plugin =
  name :: "string attr"
  version :: "string attr"
  save_type :: "string attr"
  dependencies :: "(string \<times> string) list attr"
  extras :: "(string \<times> string) list"
  this_file_path :: path
  self_path :: path
  debug :: bool
  event_handlers :: "nat list"
  work_path :: path
  data_path :: path
  first_load :: bool
  data :: data_attr
  work_space :: path
  overrides :: hooks

text \<open>
  A keyword argument of the constructor: \<^verbatim>\<open>setattr(self, k, v)\<close> (line 103) on one
  of the attributes the core reads, or on any other name.
\<close>

datatype kwarg =
    Kw_name "string option"
  | Kw_version "string option"
  | Kw_save_type "string option"
  | Kw_dependencies "(string \<times> string) list option"
  | Kw_other string string

text \<open>The resolved directories the constructor starts from (ncatbot/utils/literals.py
  and the process's working directory).\<close>

record dirs =
  plugins_dir :: path
  persistent_dir :: path
  cwd :: path

subsection \<open>Construction (lines 79 to 134)\<close>

definition setattr :: "kwarg \<Rightarrow> plugin \<Rightarrow> plugin" where
  "setattr kw p =
     (case kw of
        Kw_name v \<Rightarrow> p\<lparr>name := Declared v\<rparr>
      | Kw_version v \<Rightarrow> p\<lparr>version := Declared v\<rparr>
      | Kw_save_type v \<Rightarrow> p\<lparr>save_type := Declared v\<rparr>
      | Kw_dependencies v \<Rightarrow> p\<lparr>dependencies := Declared v\<rparr>
      | Kw_other k v \<Rightarrow> p\<lparr>extras := extras p @ [(k, v)]\<rparr>)"

text \<open>
  The instance as \<^verbatim>\<open>__init__\<close> finds it: the identity attributes are the class's,
  nothing else is set yet (the other fields are assigned before they are read).
\<close>

definition blank :: "plugin_class \<Rightarrow> plugin" where
  "blank cls =
     \<lparr>name = cls_name cls, version = cls_version cls, save_type = cls_save_type cls,
      dependencies = cls_dependencies cls, extras = [], this_file_path = [], self_path = [],
      debug = False, event_handlers = [], work_path = [], data_path = [],
      first_load = False, data = Raw_dict [], work_space = [], overrides = cls_hooks cls\<rparr>"

text \<open>Lines 94 to 98: the identity check.\<close>

definition check_identity :: "plugin \<Rightarrow> exn + unit" where
  "check_identity p =
     (case getattr ''name'' (name p) of
        Inl e \<Rightarrow> Inl e
      | Inr n \<Rightarrow>
          if falsy n then Inl (ValueError Missing_name)
          else (case getattr ''version'' (version p) of
                  Inl e \<Rightarrow> Inl e
                | Inr v \<Rightarrow> if falsy v then Inl (ValueError Missing_version) else Inr ()))"

text \<open>Lines 100 to 107: the keyword arguments, then the two defaults.\<close>

definition apply_kwd :: "kwarg list \<Rightarrow> plugin \<Rightarrow> exn + plugin" where
  "apply_kwd kwd p =
     (let p1 = fold setattr kwd p in
      case getattr ''save_type'' (save_type p1) of
        Inl e \<Rightarrow> Inl e
      | Inr st \<Rightarrow>
          (let p2 = (if falsy st then p1\<lparr>save_type := Declared (Some ''json'')\<rparr> else p1) in
           case getattr ''dependencies'' (dependencies p2) of
             Inl e \<Rightarrow> Inl e
           | Inr d \<Rightarrow> Inr (if falsy d then p2\<lparr>dependencies := Declared (Some [])\<rparr> else p2)))"

text \<open>
  Lines 110 to 120: the paths. Joining a path with \<^verbatim>\<open>None\<close> is a
  \<^verbatim>\<open>TypeError\<close>.
\<close>

definition resolve_paths :: "dirs \<Rightarrow> plugin_class \<Rightarrow> plugin \<Rightarrow> exn + plugin" where
  "resolve_paths ds cls p =
     (case extract_relative_path (plugins_dir ds) (butlast (cls_file cls)) of
        None \<Rightarrow> Inl TypeError
      | Some rel \<Rightarrow>
          (case extract_relative_path (cwd ds) (plugins_dir ds @ rel) of
             None \<Rightarrow> Inl TypeError
           | Some rel' \<Rightarrow>
               (case getattr ''name'' (name p) of
                  Inl e \<Rightarrow> Inl e
                | Inr n \<Rightarrow>
                    (case getattr ''save_type'' (save_type p) of
                       Inl e \<Rightarrow> Inl e
                     | Inr st \<Rightarrow>
                         Inr (p\<lparr>this_file_path := cls_file cls,
                                self_path := plugins_dir ds @ rel,
                                work_path := persistent_dir ds @ rel',
                                data_path := join_path (persistent_dir ds @ rel')
                                  (py_str n @ ''.'' @ py_str st)\<rparr>)))))"

text \<open>Lines 122 to 128: the first-load flag; the work directory is created if missing.\<close>

definition check_first_load :: "plugin \<Rightarrow> world \<Rightarrow> (exn + plugin) \<times> world" where
  "check_first_load p w =
     (let p0 = p\<lparr>first_load := False\<rparr> in
      if \<not> exists_path (files w) (work_path p0) then
        (case mkdir_parents (files w) (work_path p0) of
           Inl e \<Rightarrow> (Inl e, w)
         | Inr fs' \<Rightarrow> (Inr (p0\<lparr>first_load := True\<rparr>), emit (Mkdir (work_path p0)) (w\<lparr>files := fs'\<rparr>)))
      else if \<not> exists_path (files w) (data_path p0) then (Inr (p0\<lparr>first_load := True\<rparr>), w)
      else (Inr p0, w))"

text \<open>Lines 130 and 131: the work path must be a directory.\<close>

definition check_work_dir :: "plugin \<Rightarrow> world \<Rightarrow> exn + unit" where
  "check_work_dir p w =
     (if \<not> is_dir (files w) (work_path p) then
        (case getattr ''name'' (name p) of
           Inl e \<Rightarrow> Inl e
         | Inr n \<Rightarrow> Inl (PluginLoadError n (work_path p)))
      else Inr ())"

text \<open>
  \<^verbatim>\<open>__init__(self, event_bus, debug, **kwd)\<close>. The bus handed in is the world's.
  Lines 133 and 134 bind the store to the data file and the workspace to the work
  directory.
\<close>

definition init :: "dirs \<Rightarrow> plugin_class \<Rightarrow> bool \<Rightarrow> kwarg list \<Rightarrow> world \<Rightarrow> (exn + plugin) \<times> world" where
  "init ds cls dbg kwd w =
     (case check_identity (blank cls) of
        Inl e \<Rightarrow> (Inl e, w)
      | Inr u \<Rightarrow>
          (case apply_kwd kwd (blank cls) of
             Inl e \<Rightarrow> (Inl e, w)
           | Inr p1 \<Rightarrow>
               (case resolve_paths ds cls (p1\<lparr>debug := dbg, event_handlers := []\<rparr>) of
                  Inl e \<Rightarrow> (Inl e, w)
                | Inr p2 \<Rightarrow>
                    (case check_first_load p2 w of
                       (Inl e, w') \<Rightarrow> (Inl e, w')
                     | (Inr p3, w') \<Rightarrow>
                         (case check_work_dir p3 w' of
                            Inl e \<Rightarrow> (Inl e, w')
                          | Inr u' \<Rightarrow>
                              (Inr (p3\<lparr>data := Store \<lparr>file_path = Some (data_path p3), content = []\<rparr>,
                                        work_space := work_path p3\<rparr>), w'))))))"

subsection \<open>The handler registry (lines 267 to 302)\<close>

definition register_handler :: "string \<Rightarrow> nat \<Rightarrow> int \<Rightarrow> plugin \<Rightarrow> world \<Rightarrow> nat \<times> plugin \<times> world" where
  "register_handler event_type handler priority p w =
     (case subscribe (bus w) event_type handler priority of
        (handler_id, b') \<Rightarrow>
          (handler_id,
           p\<lparr>event_handlers := event_handlers p @ [handler_id]\<rparr>,
           emit (Subscribe handler_id event_type handler priority) (w\<lparr>bus := b'\<rparr>)))"

definition unregister_handler :: "nat \<Rightarrow> plugin \<Rightarrow> bool \<times> plugin" where
  "unregister_handler handler_id p =
     (if handler_id \<in> set (event_handlers p)
      then (True, p\<lparr>event_handlers := event_handlers p @ [handler_id]\<rparr>)
      else (False, p))"

text \<open>The loop of \<^verbatim>\<open>unregister_handlers\<close> (lines 301 and 302).\<close>

fun unsubscribe_each :: "nat list \<Rightarrow> world \<Rightarrow> world" where
  "unsubscribe_each [] w = w"
| "unsubscribe_each (handler_id # rest) w =
     unsubscribe_each rest (emit (Unsubscribe handler_id) (w\<lparr>bus := unsubscribe (bus w) handler_id\<rparr>))"

definition unregister_handlers :: "plugin \<Rightarrow> world \<Rightarrow> world" where
  "unregister_handlers p w = unsubscribe_each (event_handlers p) w"

subsection \<open>The load sequence (lines 162 to 182)\<close>

text \<open>
  Lines 173 to 177, the body of the \<^verbatim>\<open>try\<close>: a bare mapping is wrapped in a fresh
  store that is bound to no file, then the store loads.
\<close>

definition wrap_data :: "plugin \<Rightarrow> loader" where
  "wrap_data p = (case data p of Raw_dict d \<Rightarrow> \<lparr>file_path = None, content = d\<rparr> | Store ld \<Rightarrow> ld)"

definition load_data :: "codec \<Rightarrow> plugin \<Rightarrow> world \<Rightarrow> (exn + unit) \<times> plugin \<times> world" where
  "load_data cd p w =
     (case data p of
        Raw_dict d \<Rightarrow> (Inl (AttributeError ''load''), p, w)
      | Store ld \<Rightarrow>
          (let w' = emit (Load (file_path ld)) w in
           case loader_load cd ld (files w') of
             Inl e \<Rightarrow> (Inl e, p, w')
           | Inr ld' \<Rightarrow> (Inr (), p\<lparr>data := Store ld'\<rparr>, w')))"

text \<open>The exceptions the handler of line 178 catches.\<close>

definition load_failure :: "exn \<Rightarrow> bool" where
  "load_failure e = (e = FileTypeUnknownError \<or> e = LoadError \<or> e = FileNotFoundError)"

text \<open>
  Lines 172 to 180. The handler writes \<^verbatim>\<open>'{}'\<close> to
  \<^verbatim>\<open>self._work_path / f'{self.name}.json'\<close> and loads again, outside any
  \<^verbatim>\<open>try\<close>.
\<close>

definition load_or_heal :: "codec \<Rightarrow> plugin \<Rightarrow> world \<Rightarrow> (exn + unit) \<times> plugin \<times> world" where
  "load_or_heal cd p w =
     (case load_data cd (p\<lparr>data := Store (wrap_data p)\<rparr>) w of
        (Inr u, p1, w1) \<Rightarrow> (Inr u, p1, w1)
      | (Inl e, p1, w1) \<Rightarrow>
          if load_failure e then
            (case getattr ''name'' (name p1) of
               Inl e' \<Rightarrow> (Inl e', p1, w1)
             | Inr n \<Rightarrow>
                 (case write_file (files w1) (join_path (work_path p1) (py_str n @ ''.json'')) ''{}'' of
                    Inl e' \<Rightarrow> (Inl e', p1, w1)
                  | Inr fs' \<Rightarrow>
                      load_data cd p1
                        (emit (Write (join_path (work_path p1) (py_str n @ ''.json'')) ''{}'')
                           (w1\<lparr>files := fs'\<rparr>))))
          else (Inl e, p1, w1))"

text \<open>\<^verbatim>\<open>__onload__\<close>: the data, then \<^verbatim>\<open>_init_\<close> in a thread, then \<^verbatim>\<open>on_load\<close>.\<close>

definition onload :: "codec \<Rightarrow> plugin \<Rightarrow> world \<Rightarrow> (exn + unit) \<times> plugin \<times> world" where
  "onload cd p w =
     (case load_or_heal cd p w of
        (Inl e, p1, w1) \<Rightarrow> (Inl e, p1, w1)
      | (Inr u, p1, w1) \<Rightarrow>
          (let w2 = emit (To_thread Hook_init ([], [])) w1 in
           case init_hook (overrides p1) of
             Some e \<Rightarrow> (Inl e, p1, w2)
           | None \<Rightarrow>
               (let w3 = emit (Await Hook_on_load ([], [])) w2 in
                case on_load_hook (overrides p1) of
                  Some e \<Rightarrow> (Inl e, p1, w3)
                | None \<Rightarrow> (Inr (), p1, w3))))"

subsection \<open>The unload sequence (lines 141 to 160)\<close>

text \<open>
  Lines 154 to 158, the body of the \<^verbatim>\<open>try\<close>. A bare mapping in \<^verbatim>\<open>self.data\<close>
  has neither a \<^verbatim>\<open>data\<close> attribute nor a \<^verbatim>\<open>save\<close> method.
\<close>

definition save_or_dump :: "codec \<Rightarrow> plugin \<Rightarrow> world \<Rightarrow> (exn + unit) \<times> world" where
  "save_or_dump cd p w =
     (if debug p then
        (let w1 = emit Log_warning w in
         case getattr ''name'' (name p) of
           Inl e \<Rightarrow> (Inl e, w1)
         | Inr n \<Rightarrow>
             (case data p of
                Raw_dict d \<Rightarrow> (Inl (AttributeError ''data''), w1)
              | Store ld \<Rightarrow> (Inr (), emit (Print_tree n (content ld)) w1)))
      else
        (case data p of
           Raw_dict d \<Rightarrow> (Inl (AttributeError ''save''), w)
         | Store ld \<Rightarrow>
             (let w1 = emit (Save (file_path ld) (content ld)) w in
              case loader_save cd ld (files w1) of
                Inl e \<Rightarrow> (Inl e, w1)
              | Inr fs' \<Rightarrow> (Inr (), w1\<lparr>files := fs'\<rparr>))))"

text \<open>The exceptions the handler of line 159 catches.\<close>

definition save_failure :: "exn \<Rightarrow> bool" where
  "save_failure e = (e = FileTypeUnknownError \<or> e = SaveError \<or> e = FileNotFoundError)"

text \<open>Lines 153 to 160.\<close>

definition persist :: "codec \<Rightarrow> plugin \<Rightarrow> world \<Rightarrow> (exn + unit) \<times> world" where
  "persist cd p w =
     (case save_or_dump cd p w of
        (Inr u, w1) \<Rightarrow> (Inr u, w1)
      | (Inl e, w1) \<Rightarrow>
          if save_failure e then
            (case getattr ''name'' (name p) of
               Inl e' \<Rightarrow> (Inl e', w1)
             | Inr n \<Rightarrow> (Inl (RuntimeError n e), w1))
          else (Inl e, w1))"

text \<open>
  \<^verbatim>\<open>__unload__(self, *arg, **kwd)\<close>: the handlers, \<^verbatim>\<open>_close_\<close> in a thread,
  \<^verbatim>\<open>on_close\<close>, then the data.
\<close>

definition unload :: "codec \<Rightarrow> call_args \<Rightarrow> plugin \<Rightarrow> world \<Rightarrow> (exn + unit) \<times> plugin \<times> world" where
  "unload cd a p w =
     (let w1 = unregister_handlers p w;
          w2 = emit (To_thread Hook_close a) w1 in
      case close_hook (overrides p) a of
        Some e \<Rightarrow> (Inl e, p, w2)
      | None \<Rightarrow>
          (let w3 = emit (Await Hook_on_close a) w2 in
           case on_close_hook (overrides p) a of
             Some e \<Rightarrow> (Inl e, p, w3)
           | None \<Rightarrow> (case persist cd p w3 of (r, w4) \<Rightarrow> (r, p, w4))))"

subsection \<open>Scheduled tasks and publishing (lines 184 to 265)\<close>

definition add_scheduled_task ::
  "collaborators \<Rightarrow> nat \<Rightarrow> string \<Rightarrow> string \<Rightarrow> nat list option \<Rightarrow> nat option \<Rightarrow>
   string list option \<Rightarrow> (string \<times> string) list option \<Rightarrow> nat option \<Rightarrow> nat option \<Rightarrow>
   world \<Rightarrow> (exn + bool) \<times> world" where
  "add_scheduled_task co f task_name iv conds mx ar kw arp kwp w =
     (case add_job co
             \<lparr>job_name = task_name, job_func = f, interval = iv, max_runs = mx, run_count = 0,
              conditions = (case conds of None \<Rightarrow> [] | Some c \<Rightarrow> c),
              args = ar, kwargs = (case kw of None \<Rightarrow> [] | Some k \<Rightarrow> k),
              args_provider = arp, kwargs_provider = kwp\<rparr>
             (jobs w) of
        (r, js) \<Rightarrow> (r, w\<lparr>jobs := js\<rparr>))"

definition remove_scheduled_task :: "collaborators \<Rightarrow> string \<Rightarrow> world \<Rightarrow> (exn + bool) \<times> world" where
  "remove_scheduled_task co task_name w =
     (case remove_job co task_name (jobs w) of (r, js) \<Rightarrow> (r, w\<lparr>jobs := js\<rparr>))"

definition publish_sync :: "collaborators \<Rightarrow> event \<Rightarrow> world \<Rightarrow> (exn + string list) \<times> world" where
  "publish_sync co ev w = (case publish co ev (bus w) of (r, b') \<Rightarrow> (r, w\<lparr>bus := b'\<rparr>))"

subsection \<open>Sequences of calls on one instance\<close>

datatype call =
    Register_handler string nat int
  | Unregister_handler nat
  | Unregister_handlers
  | Add_scheduled_task nat string string "nat list option" "nat option"
      "string list option" "(string \<times> string) list option" "nat option" "nat option"
  | Remove_scheduled_task string
  | Publish_sync event
  | Publish_async event
  | Onload
  | Unload call_args

datatype ret =
    Returned_none
  | Returned_bool bool
  | Returned_token nat
  | Returned_results "string list"
  | Returned_awaitable event
  | Raised exn

definition ret_unit :: "exn + unit \<Rightarrow> ret" where
  "ret_unit r = (case r of Inl e \<Rightarrow> Raised e | Inr u \<Rightarrow> Returned_none)"

definition ret_bool :: "exn + bool \<Rightarrow> ret" where
  "ret_bool r = (case r of Inl e \<Rightarrow> Raised e | Inr b \<Rightarrow> Returned_bool b)"

definition ret_results :: "exn + string list \<Rightarrow> ret" where
  "ret_results r = (case r of Inl e \<Rightarrow> Raised e | Inr xs \<Rightarrow> Returned_results xs)"

text \<open>
  \<^verbatim>\<open>publish_async\<close> hands back the bus's awaitable; nothing runs until the caller
  awaits it.
\<close>

definition perform :: "collaborators \<Rightarrow> call \<Rightarrow> plugin \<Rightarrow> world \<Rightarrow> ret \<times> plugin \<times> world" where
  "perform co c p w =
     (case c of
        Register_handler et h pr \<Rightarrow>
          (case register_handler et h pr p w of (t, p', w') \<Rightarrow> (Returned_token t, p', w'))
      | Unregister_handler t \<Rightarrow>
          (case unregister_handler t p of (b, p') \<Rightarrow> (Returned_bool b, p', w))
      | Unregister_handlers \<Rightarrow> (Returned_none, p, unregister_handlers p w)
      | Add_scheduled_task f n iv conds mx ar kw arp kwp \<Rightarrow>
          (case add_scheduled_task co f n iv conds mx ar kw arp kwp w of
             (r, w') \<Rightarrow> (ret_bool r, p, w'))
      | Remove_scheduled_task n \<Rightarrow>
          (case remove_scheduled_task co n w of (r, w') \<Rightarrow> (ret_bool r, p, w'))
      | Publish_sync ev \<Rightarrow>
          (case publish_sync co ev w of (r, w') \<Rightarrow> (ret_results r, p, w'))
      | Publish_async ev \<Rightarrow> (Returned_awaitable ev, p, w)
      | Onload \<Rightarrow> (case onload (formats co) p w of (r, p', w') \<Rightarrow> (ret_unit r, p', w'))
      | Unload a \<Rightarrow> (case unload (formats co) a p w of (r, p', w') \<Rightarrow> (ret_unit r, p', w')))"

fun run :: "collaborators \<Rightarrow> call list \<Rightarrow> plugin \<Rightarrow> world \<Rightarrow> ret list \<times> plugin \<times> world" where
  "run co [] p w = ([], p, w)"
| "run co (c # cs) p w =
     (case perform co c p w of
        (r, p', w') \<Rightarrow> (case run co cs p' w' of (rs, p'', w'') \<Rightarrow> (r # rs, p'', w'')))"

text \<open>The tokens that calls of \<^verbatim>\<open>register_handler\<close> returned.\<close>

fun tokens_of :: "ret list \<Rightarrow> nat list" where
  "tokens_of [] = []"
| "tokens_of (Returned_token t # rs) = t # tokens_of rs"
| "tokens_of (r # rs) = tokens_of rs"

text \<open>How often the journal records a revocation of a token.\<close>

definition revocations :: "nat \<Rightarrow> effect list \<Rightarrow> nat" where
  "revocations t es = count_list es (Unsubscribe t)"

subsection \<open>A sample plugin\<close>

text \<open>
  The plugin \<^verbatim>\<open>Echo\<close>, version \<^verbatim>\<open>1.0\<close>, of the spec's scenario, for the
  examples below: its module is \<^verbatim>\<open>/bot/plugins/echo/main.py\<close>, the bot runs in
  \<^verbatim>\<open>/bot\<close> and persists under \<^verbatim>\<open>/bot/data\<close>. The sample codec knows two
  suffixes, reads only the empty object and writes the keys of a mapping.
\<close>

definition quiet_hooks :: hooks where
  "quiet_hooks =
     \<lparr>init_hook = None, on_load_hook = None,
      close_hook = (\<lambda>a. None), on_close_hook = (\<lambda>a. None)\<rparr>"

definition echo_class :: plugin_class where
  "echo_class =
     \<lparr>cls_name = Declared (Some ''Echo''), cls_version = Declared (Some ''1.0''),
      cls_save_type = Declared (Some ''json''), cls_dependencies = Declared (Some []),
      cls_file = [''bot'', ''plugins'', ''echo'', ''main.py''], cls_hooks = quiet_hooks\<rparr>"

definition bot_dirs :: dirs where
  "bot_dirs =
     \<lparr>plugins_dir = [''bot'', ''plugins''], persistent_dir = [''bot'', ''data''],
      cwd = [''bot'']\<rparr>"

definition sample_codec :: codec where
  "sample_codec =
     \<lparr>known_format = (\<lambda>f. f = ''json'' \<or> f = ''yaml''),
      decode = (\<lambda>f s. if s = ''{}'' then Some [] else None),
      encode = (\<lambda>f d. Some (''{'' @ concat (map fst d) @ ''}''))\<rparr>"

definition sample_collaborators :: collaborators where
  "sample_collaborators =
     \<lparr>formats = sample_codec,
      publish = (\<lambda>ev b. (Inr [], b)),
      add_job = (\<lambda>j js. (Inr True, js @ [j])),
      remove_job = (\<lambda>n js. (Inr (n \<in> job_name ` set js), filter (\<lambda>j. job_name j \<noteq> n) js))\<rparr>"

definition empty_bus :: event_bus where
  "empty_bus = \<lparr>subscriptions = [], next_token = 0\<rparr>"

definition bare_world :: world where
  "bare_world = \<lparr>files = (\<lambda>p. None), bus = empty_bus, jobs = [], journal = []\<rparr>"

text \<open>The work directory and the data file of \<^verbatim>\<open>Echo\<close>.\<close>

definition echo_work :: path where
  "echo_work = [''bot'', ''data'', ''plugins'', ''echo'']"

definition echo_data :: path where
  "echo_data = [''bot'', ''data'', ''plugins'', ''echo'', ''Echo.json'']"

text \<open>The instance that construction yields in the bare world, and the world it leaves.\<close>

definition echo_files :: filesystem where
  "echo_files =
     (\<lambda>p. if p = [''bot''] \<or> p = [''bot'', ''data''] \<or> p = [''bot'', ''data'', ''plugins'']
             \<or> p = echo_work then Some Dir else None)"

definition echo_world :: world where
  "echo_world = \<lparr>files = echo_files, bus = empty_bus, jobs = [], journal = [Mkdir echo_work]\<rparr>"

definition echo :: plugin where
  "echo =
     \<lparr>name = Declared (Some ''Echo''), version = Declared (Some ''1.0''),
      save_type = Declared (Some ''json''), dependencies = Declared (Some []), extras = [],
      this_file_path = [''bot'', ''plugins'', ''echo'', ''main.py''],
      self_path = [''bot'', ''plugins'', ''echo''],
      debug = False, event_handlers = [], work_path = echo_work, data_path = echo_data,
      first_load = True, data = Store \<lparr>file_path = Some echo_data, content = []\<rparr>,
      work_space = echo_work, overrides = quiet_hooks\<rparr>"

text \<open>
  Hooks of which \<^verbatim>\<open>on_close\<close> raises, hooks of which \<^verbatim>\<open>_close_\<close> raises,
  a short session of calls, and the instance and the world that the session leaves.
\<close>

definition grumpy_hooks :: hooks where
  "grumpy_hooks =
     \<lparr>init_hook = None, on_load_hook = None,
      close_hook = (\<lambda>a. None), on_close_hook = (\<lambda>a. Some (UserError ''boom''))\<rparr>"

definition sulky_hooks :: hooks where
  "sulky_hooks =
     \<lparr>init_hook = None, on_load_hook = None,
      close_hook = (\<lambda>a. Some (UserError ''no'')), on_close_hook = (\<lambda>a. None)\<rparr>"

definition session :: "call list" where
  "session =
     [Register_handler ''message'' 7 0, Unregister_handler 0, Register_handler ''notice'' 8 5]"

definition busy_bus :: event_bus where
  "busy_bus =
     \<lparr>subscriptions =
        [\<lparr>sub_token = 0, sub_type = ''message'', sub_handler = 7, sub_priority = 0\<rparr>,
         \<lparr>sub_token = 1, sub_type = ''notice'', sub_handler = 8, sub_priority = 5\<rparr>],
      next_token = 2\<rparr>"

definition busy_world :: world where
  "busy_world =
     \<lparr>files = echo_files, bus = busy_bus, jobs = [],
      journal = [Mkdir echo_work, Subscribe 0 ''message'' 7 0, Subscribe 1 ''notice'' 8 5]\<rparr>"

definition busy_echo :: plugin where
  "busy_echo = echo\<lparr>overrides := grumpy_hooks, event_handlers := [0, 0, 1]\<rparr>"

text \<open>
  What lines 154 to 158 send to the console or ask of the store, in order, when they are
  reached: the warning and the dump in debug mode, one save otherwise.
\<close>

definition persist_effects :: "plugin \<Rightarrow> effect list" where
  "persist_effects p =
     (if debug p then
        Log_warning #
          (case name p of
             Undeclared \<Rightarrow> []
           | Declared n \<Rightarrow> (case data p of Raw_dict d \<Rightarrow> [] | Store ld \<Rightarrow> [Print_tree n (content ld)]))
      else (case data p of Raw_dict d \<Rightarrow> [] | Store ld \<Rightarrow> [Save (file_path ld) (content ld)]))"

text \<open>
  The same plugin declaring \<^verbatim>\<open>save_type = 'yaml'\<close>: its data file, and the instance
  that construction yields.
\<close>

definition yaml_data :: path where
  "yaml_data = [''bot'', ''data'', ''plugins'', ''echo'', ''Echo.yaml'']"

definition yaml_echo :: plugin where
  "yaml_echo =
     echo\<lparr>save_type := Declared (Some ''yaml''), data_path := yaml_data,
          data := Store \<lparr>file_path = Some yaml_data, content = []\<rparr>\<rparr>"

text \<open>Whether a regular file stands where a directory on the way to a path would be.\<close>

definition file_on_the_way :: "filesystem \<Rightarrow> path \<Rightarrow> bool" where
  "file_on_the_way fs p =
     list_ex (\<lambda>k. case fs (take (Suc k) p) of Some (File s) \<Rightarrow> True | _ \<Rightarrow> False) [0..<length p]"

text \<open>
  Two more worlds for \<^verbatim>\<open>Echo\<close>: one where its data file is already there, and one
  where a regular file stands at the path of its work directory.
\<close>

definition seeded_world :: world where
  "seeded_world = echo_world\<lparr>files := (files echo_world)(echo_data \<mapsto> File ''{}'')\<rparr>"

definition blocked_world :: world where
  "blocked_world = echo_world\<lparr>files := (files echo_world)(echo_work \<mapsto> File ''x'')\<rparr>"

section \<open>Properties\<close>

lemma emit_simps [simp]:
  "files (emit e w) = files w" "bus (emit e w) = bus w" "jobs (emit e w) = jobs w"
  "journal (emit e w) = journal w @ [e]"
  by (simp_all add: emit_def)

lemma unsubscribe_each_files [simp]: "files (unsubscribe_each ts w) = files w"
  by (induction ts arbitrary: w) simp_all

lemma unsubscribe_each_jobs [simp]: "jobs (unsubscribe_each ts w) = jobs w"
  by (induction ts arbitrary: w) simp_all

lemma unsubscribe_each_journal [simp]:
  "journal (unsubscribe_each ts w) = journal w @ map Unsubscribe ts"
  by (induction ts arbitrary: w) simp_all

lemma unsubscribe_each_subscriptions:
  "subscriptions (bus (unsubscribe_each ts w)) =
     filter (\<lambda>s. sub_token s \<notin> set ts) (subscriptions (bus w))"
  by (induction ts arbitrary: w) (auto simp: unsubscribe_def intro: filter_cong)

lemma unsubscribe_each_next_token [simp]:
  "next_token (bus (unsubscribe_each ts w)) = next_token (bus w)"
  by (induction ts arbitrary: w) (simp_all add: unsubscribe_def)

lemma unsubscribe_each_not_subscribed:
  "t \<in> set ts \<Longrightarrow> \<not> subscribed (bus (unsubscribe_each ts w)) t"
  by (auto simp: subscribed_def unsubscribe_each_subscriptions)

lemma persist_bus [simp]: "bus (snd (persist cd p w)) = bus w"
  by (auto simp: persist_def save_or_dump_def Let_def split: sum.splits prod.splits data_attr.splits if_splits)

lemma unload_bus: "bus (snd (snd (unload cd a p w))) = bus (unregister_handlers p w)"
  apply (simp add: unload_def Let_def split: option.splits prod.splits)
  apply (metis persist_bus snd_conv emit_simps(2))
  done

lemma unload_plugin [simp]: "fst (snd (unload cd a p w)) = p"
  by (simp add: unload_def Let_def split: option.splits prod.splits)

lemma load_data_shape: "\<exists>d. fst (snd (load_data cd p w)) = p\<lparr>data := d\<rparr>"
  apply (cases "data p")
  apply (auto simp: load_data_def Let_def split: sum.splits)
  apply (rule_tac x="data p" in exI, simp)+
  done

lemma load_or_heal_shape: "\<exists>d. fst (snd (load_or_heal cd p w)) = p\<lparr>data := d\<rparr>"
proof -
  let ?p0 = "p\<lparr>data := Store (wrap_data p)\<rparr>"
  obtain r1 p1 w1 where l1: "load_data cd ?p0 w = (r1, p1, w1)"
    by (cases "load_data cd ?p0 w") auto
  from load_data_shape [of cd ?p0 w] l1 obtain d1 where p1: "p1 = p\<lparr>data := d1\<rparr>"
    by auto
  have heal: "\<exists>d. fst (snd (load_data cd p1 w')) = p\<lparr>data := d\<rparr>" for w'
    using load_data_shape [of cd p1 w'] p1 by auto
  show ?thesis
    using l1 p1 heal
    by (auto simp: load_or_heal_def split: sum.splits)
qed

lemma onload_shape: "\<exists>d. fst (snd (onload cd p w)) = p\<lparr>data := d\<rparr>"
proof -
  obtain r1 p1 w1 where l1: "load_or_heal cd p w = (r1, p1, w1)"
    by (cases "load_or_heal cd p w") auto
  from load_or_heal_shape [of cd p w] l1 obtain d1 where p1: "p1 = p\<lparr>data := d1\<rparr>"
    by auto
  show ?thesis
    using l1 p1 by (auto simp: onload_def Let_def split: sum.splits option.splits)
qed


lemma onload_event_handlers [simp]:
  "event_handlers (fst (snd (onload cd p w))) = event_handlers p"
  using onload_shape [of cd p w] by auto

lemma onload_first_load [simp]: "first_load (fst (snd (onload cd p w))) = first_load p"
  using onload_shape [of cd p w] by auto

lemma perform_first_load: "first_load (fst (snd (perform co c p w))) = first_load p"
  by (cases c)
    (auto simp: perform_def register_handler_def unregister_handler_def
          split: prod.splits if_splits
          dest: arg_cong [where f = "\<lambda>x. first_load (fst (snd x))"])

lemma perform_event_handlers:
  "\<exists>ys. event_handlers (fst (snd (perform co c p w))) = event_handlers p @ ys"
  by (cases c)
    (auto simp: perform_def register_handler_def unregister_handler_def
          split: prod.splits if_splits
          dest: arg_cong [where f = "\<lambda>x. event_handlers (fst (snd x))"])

lemma run_first_load: "first_load (fst (snd (run co cs p w))) = first_load p"
proof (induction cs arbitrary: p w)
  case Nil
  show ?case by simp
next
  case (Cons c cs)
  obtain r p' w' where step: "perform co c p w = (r, p', w')"
    by (cases "perform co c p w") auto
  with perform_first_load [of co c p w] have "first_load p' = first_load p" by simp
  with Cons [of p' w'] step show ?case by (auto split: prod.splits)
qed

lemma run_event_handlers:
  "\<exists>ys. event_handlers (fst (snd (run co cs p w))) = event_handlers p @ ys"
proof (induction cs arbitrary: p w)
  case Nil
  show ?case by simp
next
  case (Cons c cs)
  obtain r p' w' where step: "perform co c p w = (r, p', w')"
    by (cases "perform co c p w") auto
  with perform_event_handlers [of co c p w] obtain ys where
    ys: "event_handlers p' = event_handlers p @ ys" by auto
  from Cons [of p' w'] obtain zs where
    "event_handlers (fst (snd (run co cs p' w'))) = event_handlers p' @ zs" by auto
  with ys step show ?case by (auto split: prod.splits)
qed

lemma perform_token:
  "fst (perform co c p w) = Returned_token t \<Longrightarrow>
   t \<in> set (event_handlers (fst (snd (perform co c p w))))"
  by (cases c)
    (auto simp: perform_def register_handler_def unregister_handler_def
                ret_unit_def ret_bool_def ret_results_def
          split: prod.splits if_splits sum.splits)

lemma tokens_of_Cons: "set (tokens_of (r # rs)) \<subseteq> (case r of Returned_token t \<Rightarrow> {t} | _ \<Rightarrow> {}) \<union> set (tokens_of rs)"
  by (cases r) auto

lemma run_tokens_tracked:
  "set (tokens_of (fst (run co cs p w))) \<subseteq> set (event_handlers (fst (snd (run co cs p w))))"
proof (induction cs arbitrary: p w)
  case Nil
  show ?case by simp
next
  case (Cons c cs)
  obtain r p' w' where step: "perform co c p w = (r, p', w')"
    by (cases "perform co c p w") auto
  obtain rs p'' w'' where rest: "run co cs p' w' = (rs, p'', w'')"
    by (cases "run co cs p' w'") auto
  from run_event_handlers [of co cs p' w'] rest obtain zs where
    zs: "event_handlers p'' = event_handlers p' @ zs" by auto
  from Cons [of p' w'] rest have ih: "set (tokens_of rs) \<subseteq> set (event_handlers p'')" by simp
  have "set (tokens_of (r # rs)) \<subseteq> set (event_handlers p'')"
  proof (cases r)
    case (Returned_token t)
    with perform_token [of co c p w t] step have "t \<in> set (event_handlers p')" by simp
    with zs ih Returned_token show ?thesis by auto
  qed (use ih in auto)
  with step rest show ?case by simp
qed

text \<open>
  Claim C3. Take any instance and world and any sequence of calls on the instance
  (registrations with manual \<^verbatim>\<open>unregister_handler\<close> calls interleaved, and
  any other call). After \<^verbatim>\<open>__unload__\<close>, whatever its result \<open>r\<close> (it returned,
  or a close hook or the save step raised), no token the instance tracked before and no
  token a \<^verbatim>\<open>register_handler\<close> call returned is subscribed with the bus.
\<close>

theorem unload_revokes_every_handler:
  assumes "run co cs p w = (rs, p1, w1)"
    and "unload cd a p1 w1 = (r, p2, w2)"
  shows "\<forall>t \<in> set (event_handlers p) \<union> set (tokens_of rs). \<not> subscribed (bus w2) t"
proof
  fix t
  assume t: "t \<in> set (event_handlers p) \<union> set (tokens_of rs)"
  from run_event_handlers [of co cs p w] assms(1) obtain ys where
    "event_handlers p1 = event_handlers p @ ys" by auto
  moreover from run_tokens_tracked [of co cs p w] assms(1)
  have "set (tokens_of rs) \<subseteq> set (event_handlers p1)" by simp
  ultimately have "t \<in> set (event_handlers p1)" using t by auto
  then have "\<not> subscribed (bus (unregister_handlers p1 w1)) t"
    by (simp add: unregister_handlers_def unsubscribe_each_not_subscribed)
  moreover from unload_bus [of cd a p1 w1] assms(2)
  have "bus w2 = bus (unregister_handlers p1 w1)" by simp
  ultimately show "\<not> subscribed (bus w2) t" by simp
qed

lemmas sample_defs = echo_def echo_world_def echo_files_def echo_work_def echo_data_def
  quiet_hooks_def grumpy_hooks_def sample_codec_def sample_collaborators_def empty_bus_def
  busy_bus_def busy_world_def session_def

lemmas op_defs = perform_def register_handler_def unregister_handler_def unregister_handlers_def
  subscribe_def unsubscribe_def emit_def ret_unit_def ret_bool_def ret_results_def

lemma session_run:
  "run sample_collaborators session (echo\<lparr>overrides := grumpy_hooks\<rparr>) echo_world =
   ([Returned_token 0, Returned_bool True, Returned_token 1],
    echo\<lparr>overrides := grumpy_hooks, event_handlers := [0, 0, 1]\<rparr>, busy_world)"
  by (simp add: op_defs sample_defs)

theorem unload_revokes_every_handler_witness:
  "run sample_collaborators session (echo\<lparr>overrides := grumpy_hooks\<rparr>) echo_world =
     ([Returned_token 0, Returned_bool True, Returned_token 1],
      echo\<lparr>overrides := grumpy_hooks, event_handlers := [0, 0, 1]\<rparr>, busy_world)
   \<and> subscribed (bus busy_world) 0 \<and> subscribed (bus busy_world) 1
   \<and> fst (unload sample_codec ([], [])
         (echo\<lparr>overrides := grumpy_hooks, event_handlers := [0, 0, 1]\<rparr>) busy_world)
       = Inl (UserError ''boom'')
   \<and> \<not> subscribed (bus (snd (snd (unload sample_codec ([], [])
         (echo\<lparr>overrides := grumpy_hooks, event_handlers := [0, 0, 1]\<rparr>) busy_world)))) 0
   \<and> \<not> subscribed (bus (snd (snd (unload sample_codec ([], [])
         (echo\<lparr>overrides := grumpy_hooks, event_handlers := [0, 0, 1]\<rparr>) busy_world)))) 1"
proof -
  let ?p = "echo\<lparr>overrides := grumpy_hooks, event_handlers := [0, 0, 1]\<rparr>"
  let ?u = "unload sample_codec ([], []) ?p busy_world"
  have u: "?u = (fst ?u, fst (snd ?u), snd (snd ?u))" by (simp only: prod.collapse)
  have raised: "fst ?u = Inl (UserError ''boom'')"
    by (simp add: unload_def Let_def grumpy_hooks_def)
  have before: "subscribed (bus busy_world) 0 \<and> subscribed (bus busy_world) 1"
    by (simp add: subscribed_def busy_world_def busy_bus_def)
  from unload_revokes_every_handler [OF session_run u]
  have "\<not> subscribed (bus (snd (snd ?u))) 0 \<and> \<not> subscribed (bus (snd (snd ?u))) 1"
    by simp
  with session_run raised before show ?thesis by simp
qed

lemma save_or_dump_journal:
  "journal (snd (save_or_dump cd p w)) = journal w @ persist_effects p"
  by (auto simp: save_or_dump_def persist_effects_def getattr_def Let_def
           split: attr.splits data_attr.splits sum.splits)

lemma persist_journal: "journal (snd (persist cd p w)) = journal w @ persist_effects p"
  using save_or_dump_journal [of cd p w]
  by (auto simp: persist_def split: prod.splits sum.splits)

lemma unload_journal:
  "journal (snd (snd (unload cd a p w))) =
     journal w @ map Unsubscribe (event_handlers p) @
     To_thread Hook_close a #
       (case close_hook (overrides p) a of
          Some e \<Rightarrow> []
        | None \<Rightarrow>
            Await Hook_on_close a #
              (case on_close_hook (overrides p) a of
                 Some e \<Rightarrow> []
               | None \<Rightarrow> persist_effects p))"
proof -
  have "journal (snd (persist cd p w')) = journal w' @ persist_effects p" for w'
    by (rule persist_journal)
  then show ?thesis
    by (auto simp: unload_def Let_def unregister_handlers_def split: option.splits prod.splits
             dest: arg_cong [where f = "\<lambda>x. journal (snd x)"])
qed

lemma unload_result:
  "fst (unload cd a p w) =
     (case close_hook (overrides p) a of
        Some e \<Rightarrow> Inl e
      | None \<Rightarrow>
          (case on_close_hook (overrides p) a of
             Some e \<Rightarrow> Inl e
           | None \<Rightarrow>
               fst (persist cd p
                 (emit (Await Hook_on_close a)
                    (emit (To_thread Hook_close a) (unregister_handlers p w))))))"
  by (simp add: unload_def Let_def split: option.splits prod.splits)

lemma count_list_Unsubscribe: "count_list (map Unsubscribe ts) (Unsubscribe t) = count_list ts t"
  by (induction ts) simp_all

lemma count_list_replicate_same: "count_list (replicate k t) t = k"
  by (induction k) simp_all

lemma persist_effects_no_revocation: "revocations t (persist_effects p) = 0"
  by (simp add: revocations_def persist_effects_def split: attr.splits data_attr.splits)

lemma unload_revocations:
  "revocations t (journal (snd (snd (unload cd a p w)))) =
     revocations t (journal w) + count_list (event_handlers p) t"
  using persist_effects_no_revocation [of t p]
  by (simp add: unload_journal revocations_def count_list_Unsubscribe split: option.splits)

lemma run_unregister_again:
  "t \<in> set (event_handlers p) \<Longrightarrow>
   run co (replicate k (Unregister_handler t)) p w =
     (replicate k (Returned_bool True), p\<lparr>event_handlers := event_handlers p @ replicate k t\<rparr>, w)"
proof (induction k arbitrary: p)
  case 0
  show ?case by simp
next
  case (Suc k)
  let ?p' = "p\<lparr>event_handlers := event_handlers p @ [t]\<rparr>"
  from Suc.prems have step: "perform co (Unregister_handler t) p w = (Returned_bool True, ?p', w)"
    by (simp add: perform_def unregister_handler_def)
  from Suc.prems have "t \<in> set (event_handlers ?p')" by simp
  from Suc.IH [OF this] step show ?case
    by (simp add: replicate_app_Cons_same)
qed

text \<open>
  Claim C9. The tracked handler list never shrinks: after any sequence of calls the old
  list is a prefix of the new one; \<^verbatim>\<open>register_handler\<close> appends the token it
  returns; \<^verbatim>\<open>unregister_handler\<close> on a tracked token returns true and appends the
  token once more; \<^verbatim>\<open>unregister_handlers\<close> leaves the instance as it is and asks
  the bus to unsubscribe each listed token, and asks again for every token when called a
  second time. So a token registered once and then unregistered \<open>k\<close> times, each time
  with the answer true, is listed \<open>k + 1\<close> times and unload asks the bus \<open>k + 1\<close>
  times to unsubscribe it.
\<close>

theorem handler_list_never_shrinks:
  "(\<exists>ys. event_handlers (fst (snd (run co cs p w))) = event_handlers p @ ys)
   \<and> event_handlers (fst (snd (register_handler et h pr p w))) =
       event_handlers p @ [fst (register_handler et h pr p w)]
   \<and> (u \<in> set (event_handlers p) \<longrightarrow>
        unregister_handler u p = (True, p\<lparr>event_handlers := event_handlers p @ [u]\<rparr>))
   \<and> perform co Unregister_handlers p w = (Returned_none, p, unregister_handlers p w)
   \<and> journal (unregister_handlers p w) = journal w @ map Unsubscribe (event_handlers p)
   \<and> journal (unregister_handlers p (unregister_handlers p w)) =
       journal w @ map Unsubscribe (event_handlers p) @ map Unsubscribe (event_handlers p)
   \<and> (register_handler et h pr p w = (t, p1, w1) \<and> t \<notin> set (event_handlers p) \<longrightarrow>
        (\<exists>p2. run co (replicate k (Unregister_handler t)) p1 w1 =
                 (replicate k (Returned_bool True), p2, w1)
              \<and> event_handlers p2 = event_handlers p @ replicate (Suc k) t
              \<and> revocations t (journal (snd (snd (unload cd a p2 w1)))) =
                  revocations t (journal w1) + (k + 1)))"
proof -
  have grows: "\<exists>ys. event_handlers (fst (snd (run co cs p w))) = event_handlers p @ ys"
    by (rule run_event_handlers)
  have appended: "event_handlers (fst (snd (register_handler et h pr p w))) =
       event_handlers p @ [fst (register_handler et h pr p w)]"
    by (simp add: register_handler_def split: prod.splits)
  have again: "u \<in> set (event_handlers p) \<longrightarrow>
        unregister_handler u p = (True, p\<lparr>event_handlers := event_handlers p @ [u]\<rparr>)"
    by (simp add: unregister_handler_def)
  have kept: "perform co Unregister_handlers p w = (Returned_none, p, unregister_handlers p w)"
    by (simp add: perform_def)
  have once: "journal (unregister_handlers p w) = journal w @ map Unsubscribe (event_handlers p)"
    by (simp add: unregister_handlers_def)
  have twice: "journal (unregister_handlers p (unregister_handlers p w)) =
       journal w @ map Unsubscribe (event_handlers p) @ map Unsubscribe (event_handlers p)"
    by (simp add: unregister_handlers_def)
  have often: "register_handler et h pr p w = (t, p1, w1) \<and> t \<notin> set (event_handlers p) \<longrightarrow>
        (\<exists>p2. run co (replicate k (Unregister_handler t)) p1 w1 =
                 (replicate k (Returned_bool True), p2, w1)
              \<and> event_handlers p2 = event_handlers p @ replicate (Suc k) t
              \<and> revocations t (journal (snd (snd (unload cd a p2 w1)))) =
                  revocations t (journal w1) + (k + 1))"
  proof
    assume h: "register_handler et h pr p w = (t, p1, w1) \<and> t \<notin> set (event_handlers p)"
    then have p1: "event_handlers p1 = event_handlers p @ [t]"
      by (auto simp: register_handler_def split: prod.splits)
    then have "t \<in> set (event_handlers p1)" by simp
    from run_unregister_again [OF this, of co k w1]
    have r: "run co (replicate k (Unregister_handler t)) p1 w1 =
       (replicate k (Returned_bool True), p1\<lparr>event_handlers := event_handlers p1 @ replicate k t\<rparr>, w1)" .
    let ?p2 = "p1\<lparr>event_handlers := event_handlers p1 @ replicate k t\<rparr>"
    have e: "event_handlers ?p2 = event_handlers p @ replicate (Suc k) t"
      using p1 by simp
    from h have "count_list (event_handlers p) t = 0" by simp
    then have c: "count_list (event_handlers ?p2) t = k + 1"
      using e by (simp add: count_list_0_iff count_list_replicate_same)
    have "revocations t (journal (snd (snd (unload cd a ?p2 w1)))) =
            revocations t (journal w1) + (k + 1)"
      using c unfolding unload_revocations by simp
    with r e show "\<exists>p2. run co (replicate k (Unregister_handler t)) p1 w1 =
                 (replicate k (Returned_bool True), p2, w1)
              \<and> event_handlers p2 = event_handlers p @ replicate (Suc k) t
              \<and> revocations t (journal (snd (snd (unload cd a p2 w1)))) =
                  revocations t (journal w1) + (k + 1)"
      by blast
  qed
  from grows appended again kept once twice often show ?thesis by blast
qed

lemma busy_register:
  "register_handler ''message'' 7 0 busy_echo busy_world =
     (2, busy_echo\<lparr>event_handlers := [0, 0, 1, 2]\<rparr>,
      busy_world\<lparr>bus := \<lparr>subscriptions = subscriptions busy_bus @
           [\<lparr>sub_token = 2, sub_type = ''message'', sub_handler = 7, sub_priority = 0\<rparr>],
           next_token = 3\<rparr>,
        journal := journal busy_world @ [Subscribe 2 ''message'' 7 0]\<rparr>)"
  by (simp add: register_handler_def subscribe_def emit_def busy_echo_def busy_world_def busy_bus_def)

theorem handler_list_never_shrinks_witness:
  "0 \<in> set (event_handlers busy_echo)
   \<and> unregister_handler 0 busy_echo = (True, busy_echo\<lparr>event_handlers := [0, 0, 1, 0]\<rparr>)
   \<and> fst (register_handler ''message'' 7 0 busy_echo busy_world) = 2
   \<and> 2 \<notin> set (event_handlers busy_echo)
   \<and> (\<exists>p2. run sample_collaborators (replicate 2 (Unregister_handler 2))
               (fst (snd (register_handler ''message'' 7 0 busy_echo busy_world)))
               (snd (snd (register_handler ''message'' 7 0 busy_echo busy_world))) =
             ([Returned_bool True, Returned_bool True], p2,
              snd (snd (register_handler ''message'' 7 0 busy_echo busy_world)))
          \<and> event_handlers p2 = [0, 0, 1, 2, 2, 2]
          \<and> revocations 2 (journal (snd (snd (unload sample_codec ([], []) p2
               (snd (snd (register_handler ''message'' 7 0 busy_echo busy_world)))))))  = 3)"
proof -
  let ?p1 = "busy_echo\<lparr>event_handlers := [0, 0, 1, 2]\<rparr>"
  let ?w1 = "busy_world\<lparr>bus := \<lparr>subscriptions = subscriptions busy_bus @
           [\<lparr>sub_token = 2, sub_type = ''message'', sub_handler = 7, sub_priority = 0\<rparr>],
           next_token = 3\<rparr>,
        journal := journal busy_world @ [Subscribe 2 ''message'' 7 0]\<rparr>"
  have tracked: "0 \<in> set (event_handlers busy_echo)"
    and fresh: "2 \<notin> set (event_handlers busy_echo)"
    by (simp_all add: busy_echo_def)
  have none: "revocations 2 (journal ?w1) = 0"
    by (simp add: revocations_def busy_world_def)
  note all = handler_list_never_shrinks [where p = busy_echo and w = busy_world and u = 0
      and et = "''message''" and h = 7 and pr = 0 and t = 2 and k = 2
      and co = sample_collaborators and cd = sample_codec and a = "([], [])"
      and ?p1.0 = ?p1 and ?w1.0 = ?w1]
  from all have "0 \<in> set (event_handlers busy_echo) \<longrightarrow>
      unregister_handler 0 busy_echo =
        (True, busy_echo\<lparr>event_handlers := event_handlers busy_echo @ [0]\<rparr>)"
    by blast
  with tracked have again:
    "unregister_handler 0 busy_echo = (True, busy_echo\<lparr>event_handlers := [0, 0, 1, 0]\<rparr>)"
    by (simp add: busy_echo_def)
  from all have "register_handler ''message'' 7 0 busy_echo busy_world = (2, ?p1, ?w1)
       \<and> 2 \<notin> set (event_handlers busy_echo) \<longrightarrow>
     (\<exists>p2. run sample_collaborators (replicate 2 (Unregister_handler 2)) ?p1 ?w1 =
              (replicate 2 (Returned_bool True), p2, ?w1)
           \<and> event_handlers p2 = event_handlers busy_echo @ replicate (Suc 2) 2
           \<and> revocations 2 (journal (snd (snd (unload sample_codec ([], []) p2 ?w1)))) =
               revocations 2 (journal ?w1) + (2 + 1))"
    by blast
  with busy_register fresh obtain p2 where
    r: "run sample_collaborators (replicate 2 (Unregister_handler 2)) ?p1 ?w1 =
              (replicate 2 (Returned_bool True), p2, ?w1)"
    and e: "event_handlers p2 = event_handlers busy_echo @ replicate (Suc 2) 2"
    and c: "revocations 2 (journal (snd (snd (unload sample_codec ([], []) p2 ?w1)))) =
               revocations 2 (journal ?w1) + (2 + 1)"
    by blast
  have r': "replicate 2 (Returned_bool True) = [Returned_bool True, Returned_bool True]"
    by (simp add: numeral_2_eq_2)
  have e': "event_handlers busy_echo @ replicate (Suc 2) 2 = [0, 0, 1, 2, 2, 2::nat]"
    by (simp add: busy_echo_def numeral_2_eq_2)
  from c none have c': "revocations 2 (journal (snd (snd (unload sample_codec ([], []) p2 ?w1)))) = 3"
    by simp
  have "\<exists>p2. run sample_collaborators (replicate 2 (Unregister_handler 2)) ?p1 ?w1 =
             ([Returned_bool True, Returned_bool True], p2, ?w1)
          \<and> event_handlers p2 = [0, 0, 1, 2, 2, 2]
          \<and> revocations 2 (journal (snd (snd (unload sample_codec ([], []) p2 ?w1)))) = 3"
    using r e c' unfolding r' e' by blast
  with tracked fresh again show ?thesis
    by (simp only: busy_register fst_conv snd_conv simp_thms)
qed

text \<open>
  Claim C1, at the failing input. A fresh instance registers a handler and gets token 0;
  \<^verbatim>\<open>unregister_handler\<close> on that token returns true, and afterwards the token is
  still tracked (it is listed twice) and still subscribed with the bus.
\<close>

theorem unregister_handler_keeps_token:
  "register_handler ''message'' 7 0 echo echo_world =
     (0, echo\<lparr>event_handlers := [0]\<rparr>,
      echo_world\<lparr>bus := \<lparr>subscriptions =
           [\<lparr>sub_token = 0, sub_type = ''message'', sub_handler = 7, sub_priority = 0\<rparr>],
           next_token = 1\<rparr>,
        journal := [Mkdir echo_work, Subscribe 0 ''message'' 7 0]\<rparr>)
   \<and> unregister_handler 0 (echo\<lparr>event_handlers := [0]\<rparr>) =
       (True, echo\<lparr>event_handlers := [0, 0]\<rparr>)
   \<and> 0 \<in> set (event_handlers (snd (unregister_handler 0 (echo\<lparr>event_handlers := [0]\<rparr>))))
   \<and> subscribed \<lparr>subscriptions =
           [\<lparr>sub_token = 0, sub_type = ''message'', sub_handler = 7, sub_priority = 0\<rparr>],
           next_token = 1\<rparr> 0"
  by (simp add: register_handler_def unregister_handler_def subscribe_def emit_def subscribed_def
        echo_def echo_world_def empty_bus_def)

text \<open>
  Claim C4, as amended. Every run of \<^verbatim>\<open>__unload__\<close> adds to the journal, in this
  order and with nothing in between: one revocation for each tracked handler; the
  dispatch of \<^verbatim>\<open>_close_\<close> to a thread with the caller's arguments; if that
  returned, the awaited \<^verbatim>\<open>on_close\<close> with the same arguments; if that returned,
  the persistence step. A hook that raises ends the sequence there: its exception is the
  result, no later step is performed and no file changes. The bus is left as the
  revocations left it.
\<close>

theorem unload_order:
  "journal (snd (snd (unload cd a p w))) =
     journal w @ map Unsubscribe (event_handlers p) @
     To_thread Hook_close a #
       (case close_hook (overrides p) a of
          Some e \<Rightarrow> []
        | None \<Rightarrow>
            Await Hook_on_close a #
              (case on_close_hook (overrides p) a of
                 Some e \<Rightarrow> []
               | None \<Rightarrow> persist_effects p))
   \<and> fst (unload cd a p w) =
       (case close_hook (overrides p) a of
          Some e \<Rightarrow> Inl e
        | None \<Rightarrow>
            (case on_close_hook (overrides p) a of
               Some e \<Rightarrow> Inl e
             | None \<Rightarrow>
                 fst (persist cd p
                   (emit (Await Hook_on_close a)
                      (emit (To_thread Hook_close a) (unregister_handlers p w))))))
   \<and> files (snd (snd (unload cd a p w))) =
       (case close_hook (overrides p) a of
          Some e \<Rightarrow> files w
        | None \<Rightarrow>
            (case on_close_hook (overrides p) a of
               Some e \<Rightarrow> files w
             | None \<Rightarrow>
                 files (snd (persist cd p
                   (emit (Await Hook_on_close a)
                      (emit (To_thread Hook_close a) (unregister_handlers p w)))))))
   \<and> bus (snd (snd (unload cd a p w))) = bus (unregister_handlers p w)"
proof -
  have "files (snd (snd (unload cd a p w))) =
       (case close_hook (overrides p) a of
          Some e \<Rightarrow> files w
        | None \<Rightarrow>
            (case on_close_hook (overrides p) a of
               Some e \<Rightarrow> files w
             | None \<Rightarrow>
                 files (snd (persist cd p
                   (emit (Await Hook_on_close a)
                      (emit (To_thread Hook_close a) (unregister_handlers p w)))))))"
    by (simp add: unload_def Let_def unregister_handlers_def split: option.splits prod.splits)
  with unload_journal [of cd a p w] unload_result [of cd a p w] unload_bus [of cd a p w]
  show ?thesis by simp
qed

text \<open>
  The claim as stated fails where \<^verbatim>\<open>_close_\<close> raises: the handlers are revoked
  and \<^verbatim>\<open>_close_\<close> is dispatched, but \<^verbatim>\<open>on_close\<close> is never awaited and the
  persistence step (a save, the debug flag being unset) is never performed.
\<close>

theorem raising_close_hook_ends_unload:
  "\<not> debug (busy_echo\<lparr>overrides := sulky_hooks\<rparr>)
   \<and> fst (unload sample_codec ([], []) (busy_echo\<lparr>overrides := sulky_hooks\<rparr>) busy_world) =
       Inl (UserError ''no'')
   \<and> journal (snd (snd (unload sample_codec ([], [])
         (busy_echo\<lparr>overrides := sulky_hooks\<rparr>) busy_world))) =
       journal busy_world @
       [Unsubscribe 0, Unsubscribe 0, Unsubscribe 1, To_thread Hook_close ([], [])]
   \<and> Await Hook_on_close ([], []) \<notin> set (journal (snd (snd (unload sample_codec ([], [])
         (busy_echo\<lparr>overrides := sulky_hooks\<rparr>) busy_world))))
   \<and> Save (Some echo_data) [] \<notin> set (journal (snd (snd (unload sample_codec ([], [])
         (busy_echo\<lparr>overrides := sulky_hooks\<rparr>) busy_world))))"
  by (simp add: unload_result unload_journal busy_echo_def echo_def sulky_hooks_def
        busy_world_def)

lemma loader_save_failure: "loader_save cd ld fs = Inl e \<Longrightarrow> save_failure e"
  by (auto simp: loader_save_def save_failure_def split: option.splits if_splits sum.splits exn.splits)

lemma persist_files_debug: "debug p \<Longrightarrow> files (snd (persist cd p w)) = files w"
  by (auto simp: persist_def save_or_dump_def Let_def split: sum.splits data_attr.splits prod.splits if_splits)

lemma unload_files:
  "files (snd (snd (unload cd a p w))) =
     (case close_hook (overrides p) a of
        Some e \<Rightarrow> files w
      | None \<Rightarrow>
          (case on_close_hook (overrides p) a of
             Some e \<Rightarrow> files w
           | None \<Rightarrow>
               files (snd (persist cd p
                   (emit (Await Hook_on_close a)
                      (emit (To_thread Hook_close a) (unregister_handlers p w)))))))"
  by (simp add: unload_def Let_def unregister_handlers_def split: option.splits prod.splits)

lemma persist_save:
  "\<not> debug p \<Longrightarrow> data p = Store ld \<Longrightarrow> name p = Declared n \<Longrightarrow>
   persist cd p w =
     (case loader_save cd ld (files w) of
        Inl e \<Rightarrow> (Inl (RuntimeError n e), emit (Save (file_path ld) (content ld)) w)
      | Inr fs' \<Rightarrow> (Inr (), (emit (Save (file_path ld) (content ld)) w)\<lparr>files := fs'\<rparr>))"
  by (auto simp: persist_def save_or_dump_def Let_def getattr_def split: sum.splits dest: loader_save_failure)

lemma persist_files_save:
  "\<not> debug p \<Longrightarrow> data p = Store ld \<Longrightarrow>
   files (snd (persist cd p w)) =
     (case loader_save cd ld (files w) of Inl e \<Rightarrow> files w | Inr fs' \<Rightarrow> fs')"
  by (auto simp: persist_def save_or_dump_def Let_def split: sum.splits)

lemma persist_result_save:
  "\<not> debug p \<Longrightarrow> data p = Store ld \<Longrightarrow> loader_save cd ld (files w) = Inr fs' \<Longrightarrow>
   fst (persist cd p w) = Inr ()"
  by (auto simp: persist_def save_or_dump_def Let_def split: sum.splits)

lemma persist_result_debug:
  "debug p \<Longrightarrow> data p = Store ld \<Longrightarrow> name p = Declared n \<Longrightarrow> fst (persist cd p w) = Inr ()"
  by (auto simp: persist_def save_or_dump_def Let_def getattr_def split: sum.splits)

lemma loader_save_writes:
  "file_path ld = Some dp \<Longrightarrow> known_format cd (format_of dp) \<Longrightarrow>
   encode cd (format_of dp) (content ld) = Some s \<Longrightarrow>
   dp \<noteq> [] \<Longrightarrow> is_dir fs (butlast dp) \<Longrightarrow> fs dp \<noteq> Some Dir \<Longrightarrow>
   loader_save cd ld fs = Inr (fs(dp \<mapsto> File s))"
  by (auto simp: loader_save_def write_file_def is_dir_def split: option.splits node.splits)

text \<open>
  Claim C5. When the debug flag is unset and both close hooks have returned, so that
  the save step runs, and the store's save fails with any error \<open>e\<close> (an unknown
  format and a missing file among them), \<^verbatim>\<open>__unload__\<close> raises a
  \<^verbatim>\<open>RuntimeError\<close> that carries the plugin's name and \<open>e\<close>. The store was asked to
  save once, nothing else was tried and no file changed.
\<close>

theorem save_failure_raises_runtime_error:
  assumes "\<not> debug p"
    and "close_hook (overrides p) a = None"
    and "on_close_hook (overrides p) a = None"
    and "name p = Declared n"
    and "data p = Store ld"
    and "loader_save cd ld (files w) = Inl e"
  shows "fst (unload cd a p w) = Inl (RuntimeError n e)
     \<and> files (snd (snd (unload cd a p w))) = files w
     \<and> journal (snd (snd (unload cd a p w))) =
         journal w @ map Unsubscribe (event_handlers p) @
         [To_thread Hook_close a, Await Hook_on_close a, Save (file_path ld) (content ld)]"
proof -
  let ?w3 = "emit (Await Hook_on_close a) (emit (To_thread Hook_close a) (unregister_handlers p w))"
  have f: "files ?w3 = files w" by (simp add: unregister_handlers_def)
  from assms(6) f have "loader_save cd ld (files ?w3) = Inl e" by simp
  with persist_save [OF assms(1) assms(5) assms(4), of cd ?w3]
  have ps: "persist cd p ?w3 = (Inl (RuntimeError n e), emit (Save (file_path ld) (content ld)) ?w3)"
    by simp
  have "fst (unload cd a p w) = Inl (RuntimeError n e)"
    using assms(2,3) ps by (simp add: unload_result)
  moreover have "files (snd (snd (unload cd a p w))) = files w"
    using assms(2,3) ps f by (simp add: unload_files)
  moreover have "journal (snd (snd (unload cd a p w))) =
         journal w @ map Unsubscribe (event_handlers p) @
         [To_thread Hook_close a, Await Hook_on_close a, Save (file_path ld) (content ld)]"
    using assms(1,2,3,5) by (simp add: unload_journal persist_effects_def)
  ultimately show ?thesis by simp
qed

lemma format_of_echo_data: "format_of echo_data = ''json''"
  by (simp add: format_of_def suffix_of_def echo_data_def)

lemma echo_save_no_directory:
  "loader_save sample_codec \<lparr>file_path = Some echo_data, content = []\<rparr> (files bare_world) =
     Inl FileNotFoundError"
  by (simp add: loader_save_def format_of_echo_data sample_codec_def write_file_def node_at_def
        bare_world_def)
    (simp add: echo_data_def)

lemma echo_save_unknown_format:
  "loader_save sample_codec
     \<lparr>file_path = Some [''bot'', ''data'', ''plugins'', ''echo'', ''Echo.txt''], content = []\<rparr>
     (files echo_world) = Inl FileTypeUnknownError"
  by (simp add: loader_save_def format_of_def suffix_of_def sample_codec_def)

theorem save_failure_raises_runtime_error_witness:
  "loader_save sample_codec \<lparr>file_path = Some echo_data, content = []\<rparr> (files bare_world) =
     Inl FileNotFoundError
   \<and> fst (unload sample_codec ([], []) echo bare_world) =
       Inl (RuntimeError (Some ''Echo'') FileNotFoundError)
   \<and> files (snd (snd (unload sample_codec ([], []) echo bare_world))) = files bare_world
   \<and> journal (snd (snd (unload sample_codec ([], []) echo bare_world))) =
       [To_thread Hook_close ([], []), Await Hook_on_close ([], []), Save (Some echo_data) []]
   \<and> loader_save sample_codec
       \<lparr>file_path = Some [''bot'', ''data'', ''plugins'', ''echo'', ''Echo.txt''], content = []\<rparr>
       (files echo_world) = Inl FileTypeUnknownError
   \<and> fst (unload sample_codec ([], [])
         (echo\<lparr>data := Store \<lparr>file_path = Some [''bot'', ''data'', ''plugins'', ''echo'', ''Echo.txt''],
                               content = []\<rparr>\<rparr>) echo_world) =
       Inl (RuntimeError (Some ''Echo'') FileTypeUnknownError)"
proof -
  have e: "\<not> debug echo" "close_hook (overrides echo) ([], []) = None"
    "on_close_hook (overrides echo) ([], []) = None" "name echo = Declared (Some ''Echo'')"
    "data echo = Store \<lparr>file_path = Some echo_data, content = []\<rparr>"
    "event_handlers echo = []"
    by (simp_all add: echo_def quiet_hooks_def)
  let ?t = "echo\<lparr>data := Store \<lparr>file_path = Some [''bot'', ''data'', ''plugins'', ''echo'', ''Echo.txt''],
                               content = []\<rparr>\<rparr>"
  have t: "\<not> debug ?t" "close_hook (overrides ?t) ([], []) = None"
    "on_close_hook (overrides ?t) ([], []) = None" "name ?t = Declared (Some ''Echo'')"
    "data ?t = Store \<lparr>file_path = Some [''bot'', ''data'', ''plugins'', ''echo'', ''Echo.txt''],
                               content = []\<rparr>"
    by (simp_all add: echo_def quiet_hooks_def)
  note one = save_failure_raises_runtime_error [OF e(1-5) echo_save_no_directory]
  note two = save_failure_raises_runtime_error [OF t echo_save_unknown_format]
  have j: "journal bare_world = []" by (simp add: bare_world_def)
  from one two e(6) j echo_save_no_directory echo_save_unknown_format show ?thesis by simp
qed

text \<open>
  Claim C6, as amended. In debug mode \<^verbatim>\<open>__unload__\<close> changes no file, whatever
  the hooks do and whatever the data holds; once both close hooks have returned it logs
  the warning and prints the dump of the current data, and returns. With the debug flag
  unset, once both close hooks have returned, it asks the store to save the current
  content: the store's save decides the files, and for a store bound to a data file of a
  known format, in an existing directory, the data file then holds the encoded content.
  If \<^verbatim>\<open>_close_\<close> raises, or returns and \<^verbatim>\<open>on_close\<close> raises, that exception
  is the result, the journal ends with the hook that raised (nothing is dumped and the
  store is not asked to save) and no file changes, whatever the debug flag is.
\<close>

theorem debug_skips_save:
  "(debug p \<longrightarrow> files (snd (snd (unload cd a p w))) = files w)
   \<and> (debug p \<and> close_hook (overrides p) a = None \<and> on_close_hook (overrides p) a = None
        \<and> name p = Declared n \<and> data p = Store ld \<longrightarrow>
        fst (unload cd a p w) = Inr ()
        \<and> journal (snd (snd (unload cd a p w))) =
            journal w @ map Unsubscribe (event_handlers p) @
            [To_thread Hook_close a, Await Hook_on_close a, Log_warning,
             Print_tree n (content ld)])
   \<and> (\<not> debug p \<and> close_hook (overrides p) a = None \<and> on_close_hook (overrides p) a = None
        \<and> data p = Store ld \<longrightarrow>
        journal (snd (snd (unload cd a p w))) =
            journal w @ map Unsubscribe (event_handlers p) @
            [To_thread Hook_close a, Await Hook_on_close a, Save (file_path ld) (content ld)]
        \<and> files (snd (snd (unload cd a p w))) =
            (case loader_save cd ld (files w) of Inl e \<Rightarrow> files w | Inr fs' \<Rightarrow> fs'))
   \<and> (\<not> debug p \<and> close_hook (overrides p) a = None \<and> on_close_hook (overrides p) a = None
        \<and> data p = Store ld \<and> file_path ld = Some (data_path p)
        \<and> known_format cd (format_of (data_path p))
        \<and> encode cd (format_of (data_path p)) (content ld) = Some s
        \<and> data_path p \<noteq> [] \<and> is_dir (files w) (butlast (data_path p))
        \<and> files w (data_path p) \<noteq> Some Dir \<longrightarrow>
        fst (unload cd a p w) = Inr ()
        \<and> files (snd (snd (unload cd a p w))) = (files w)(data_path p \<mapsto> File s))
   \<and> (close_hook (overrides p) a = Some e \<longrightarrow>
        fst (unload cd a p w) = Inl e
        \<and> files (snd (snd (unload cd a p w))) = files w
        \<and> journal (snd (snd (unload cd a p w))) =
            journal w @ map Unsubscribe (event_handlers p) @ [To_thread Hook_close a])
   \<and> (close_hook (overrides p) a = None \<and> on_close_hook (overrides p) a = Some e \<longrightarrow>
        fst (unload cd a p w) = Inl e
        \<and> files (snd (snd (unload cd a p w))) = files w
        \<and> journal (snd (snd (unload cd a p w))) =
            journal w @ map Unsubscribe (event_handlers p) @
            [To_thread Hook_close a, Await Hook_on_close a])"
proof -
  let ?w3 = "emit (Await Hook_on_close a) (emit (To_thread Hook_close a) (unregister_handlers p w))"
  have f: "files ?w3 = files w" by (simp add: unregister_handlers_def)
  have frame: "debug p \<longrightarrow> files (snd (snd (unload cd a p w))) = files w"
    using f by (auto simp: unload_files persist_files_debug split: option.splits)
  have dump: "debug p \<and> close_hook (overrides p) a = None \<and> on_close_hook (overrides p) a = None
        \<and> name p = Declared n \<and> data p = Store ld \<longrightarrow>
        fst (unload cd a p w) = Inr ()
        \<and> journal (snd (snd (unload cd a p w))) =
            journal w @ map Unsubscribe (event_handlers p) @
            [To_thread Hook_close a, Await Hook_on_close a, Log_warning,
             Print_tree n (content ld)]"
    by (auto simp: unload_result unload_journal persist_effects_def persist_result_debug)
  have save: "\<not> debug p \<and> close_hook (overrides p) a = None \<and> on_close_hook (overrides p) a = None
        \<and> data p = Store ld \<longrightarrow>
        journal (snd (snd (unload cd a p w))) =
            journal w @ map Unsubscribe (event_handlers p) @
            [To_thread Hook_close a, Await Hook_on_close a, Save (file_path ld) (content ld)]
        \<and> files (snd (snd (unload cd a p w))) =
            (case loader_save cd ld (files w) of Inl e \<Rightarrow> files w | Inr fs' \<Rightarrow> fs')"
    using f by (auto simp: unload_files unload_journal persist_effects_def persist_files_save
                     split: sum.splits)
  have written: "\<not> debug p \<and> close_hook (overrides p) a = None \<and> on_close_hook (overrides p) a = None
        \<and> data p = Store ld \<and> file_path ld = Some (data_path p)
        \<and> known_format cd (format_of (data_path p))
        \<and> encode cd (format_of (data_path p)) (content ld) = Some s
        \<and> data_path p \<noteq> [] \<and> is_dir (files w) (butlast (data_path p))
        \<and> files w (data_path p) \<noteq> Some Dir \<longrightarrow>
        fst (unload cd a p w) = Inr ()
        \<and> files (snd (snd (unload cd a p w))) = (files w)(data_path p \<mapsto> File s)"
  proof
    assume h: "\<not> debug p \<and> close_hook (overrides p) a = None \<and> on_close_hook (overrides p) a = None
        \<and> data p = Store ld \<and> file_path ld = Some (data_path p)
        \<and> known_format cd (format_of (data_path p))
        \<and> encode cd (format_of (data_path p)) (content ld) = Some s
        \<and> data_path p \<noteq> [] \<and> is_dir (files w) (butlast (data_path p))
        \<and> files w (data_path p) \<noteq> Some Dir"
    then have "loader_save cd ld (files w) = Inr ((files w)(data_path p \<mapsto> File s))"
      by (intro loader_save_writes) simp_all
    with f have sv: "loader_save cd ld (files ?w3) = Inr ((files w)(data_path p \<mapsto> File s))"
      by simp
    from h have nd: "\<not> debug p" and st: "data p = Store ld" by simp_all
    from persist_result_save [OF nd st sv] persist_files_save [OF nd st, of cd ?w3] sv h
    show "fst (unload cd a p w) = Inr ()
        \<and> files (snd (snd (unload cd a p w))) = (files w)(data_path p \<mapsto> File s)"
      by (simp add: unload_result unload_files)
  qed
  have closing: "close_hook (overrides p) a = Some e \<longrightarrow>
        fst (unload cd a p w) = Inl e
        \<and> files (snd (snd (unload cd a p w))) = files w
        \<and> journal (snd (snd (unload cd a p w))) =
            journal w @ map Unsubscribe (event_handlers p) @ [To_thread Hook_close a]"
    by (simp add: unload_result unload_files unload_journal)
  have on_closing: "close_hook (overrides p) a = None \<and> on_close_hook (overrides p) a = Some e \<longrightarrow>
        fst (unload cd a p w) = Inl e
        \<and> files (snd (snd (unload cd a p w))) = files w
        \<and> journal (snd (snd (unload cd a p w))) =
            journal w @ map Unsubscribe (event_handlers p) @
            [To_thread Hook_close a, Await Hook_on_close a]"
    by (simp add: unload_result unload_files unload_journal)
  from frame dump save written closing on_closing show ?thesis by blast
qed

text \<open>
  The claim as stated fails where a close hook raises: the debug flag is unset, yet the
  store is never asked to save and no file changes.
\<close>

theorem raising_hook_skips_save:
  "\<not> debug busy_echo
   \<and> fst (unload sample_codec ([], []) busy_echo busy_world) = Inl (UserError ''boom'')
   \<and> journal (snd (snd (unload sample_codec ([], []) busy_echo busy_world))) =
       journal busy_world @
       [Unsubscribe 0, Unsubscribe 0, Unsubscribe 1,
        To_thread Hook_close ([], []), Await Hook_on_close ([], [])]
   \<and> files (snd (snd (unload sample_codec ([], []) busy_echo busy_world))) = files busy_world"
  by (simp add: unload_result unload_journal unload_files busy_echo_def echo_def grumpy_hooks_def)

theorem debug_skips_save_witness:
  "debug (echo\<lparr>debug := True,
            data := Store \<lparr>file_path = Some echo_data, content = [(''count'', JNum 1)]\<rparr>\<rparr>)
   \<and> fst (unload sample_codec ([], [])
         (echo\<lparr>debug := True,
            data := Store \<lparr>file_path = Some echo_data, content = [(''count'', JNum 1)]\<rparr>\<rparr>)
         echo_world) = Inr ()
   \<and> files (snd (snd (unload sample_codec ([], [])
         (echo\<lparr>debug := True,
            data := Store \<lparr>file_path = Some echo_data, content = [(''count'', JNum 1)]\<rparr>\<rparr>)
         echo_world))) = files echo_world
   \<and> journal (snd (snd (unload sample_codec ([], [])
         (echo\<lparr>debug := True,
            data := Store \<lparr>file_path = Some echo_data, content = [(''count'', JNum 1)]\<rparr>\<rparr>)
         echo_world))) =
       [Mkdir echo_work, To_thread Hook_close ([], []), Await Hook_on_close ([], []),
        Log_warning, Print_tree (Some ''Echo'') [(''count'', JNum 1)]]
   \<and> \<not> debug (echo\<lparr>data := Store \<lparr>file_path = Some echo_data,
                                       content = [(''count'', JNum 1)]\<rparr>\<rparr>)
   \<and> fst (unload sample_codec ([], [])
         (echo\<lparr>data := Store \<lparr>file_path = Some echo_data, content = [(''count'', JNum 1)]\<rparr>\<rparr>)
         echo_world) = Inr ()
   \<and> journal (snd (snd (unload sample_codec ([], [])
         (echo\<lparr>data := Store \<lparr>file_path = Some echo_data, content = [(''count'', JNum 1)]\<rparr>\<rparr>)
         echo_world))) =
       [Mkdir echo_work, To_thread Hook_close ([], []), Await Hook_on_close ([], []),
        Save (Some echo_data) [(''count'', JNum 1)]]
   \<and> files (snd (snd (unload sample_codec ([], [])
         (echo\<lparr>data := Store \<lparr>file_path = Some echo_data, content = [(''count'', JNum 1)]\<rparr>\<rparr>)
         echo_world))) = (files echo_world)(echo_data \<mapsto> File ''{count}'')
   \<and> close_hook (overrides (echo\<lparr>overrides := sulky_hooks\<rparr>)) ([], []) =
       Some (UserError ''no'')
   \<and> fst (unload sample_codec ([], []) (echo\<lparr>overrides := sulky_hooks\<rparr>) echo_world) =
       Inl (UserError ''no'')
   \<and> files (snd (snd (unload sample_codec ([], []) (echo\<lparr>overrides := sulky_hooks\<rparr>)
         echo_world))) = files echo_world
   \<and> journal (snd (snd (unload sample_codec ([], []) (echo\<lparr>overrides := sulky_hooks\<rparr>)
         echo_world))) = [Mkdir echo_work, To_thread Hook_close ([], [])]
   \<and> close_hook (overrides (echo\<lparr>overrides := grumpy_hooks, debug := True\<rparr>)) ([], []) = None
   \<and> on_close_hook (overrides (echo\<lparr>overrides := grumpy_hooks, debug := True\<rparr>)) ([], []) =
       Some (UserError ''boom'')
   \<and> fst (unload sample_codec ([], []) (echo\<lparr>overrides := grumpy_hooks, debug := True\<rparr>)
         echo_world) = Inl (UserError ''boom'')
   \<and> files (snd (snd (unload sample_codec ([], [])
         (echo\<lparr>overrides := grumpy_hooks, debug := True\<rparr>) echo_world))) = files echo_world
   \<and> journal (snd (snd (unload sample_codec ([], [])
         (echo\<lparr>overrides := grumpy_hooks, debug := True\<rparr>) echo_world))) =
       [Mkdir echo_work, To_thread Hook_close ([], []), Await Hook_on_close ([], [])]"
proof -
  let ?ld = "\<lparr>file_path = Some echo_data, content = [(''count'', JNum 1)]\<rparr>"
  let ?d = "echo\<lparr>debug := True, data := Store ?ld\<rparr>"
  let ?s = "echo\<lparr>data := Store ?ld\<rparr>"
  have d: "debug ?d" "close_hook (overrides ?d) ([], []) = None"
    "on_close_hook (overrides ?d) ([], []) = None" "name ?d = Declared (Some ''Echo'')"
    "data ?d = Store ?ld" "event_handlers ?d = []"
    by (simp_all add: echo_def quiet_hooks_def)
  have s: "\<not> debug ?s" "close_hook (overrides ?s) ([], []) = None"
    "on_close_hook (overrides ?s) ([], []) = None" "data ?s = Store ?ld"
    "event_handlers ?s = []" "data_path ?s = echo_data"
    by (simp_all add: echo_def quiet_hooks_def)
  have st: "file_path ?ld = Some echo_data" "known_format sample_codec (format_of echo_data)"
    "encode sample_codec (format_of echo_data) (content ?ld) = Some ''{count}''"
    "echo_data \<noteq> []" "is_dir (files echo_world) (butlast echo_data)"
    "files echo_world echo_data \<noteq> Some Dir"
    by (simp_all add: format_of_echo_data sample_codec_def)
      (simp_all add: echo_data_def echo_world_def echo_files_def echo_work_def is_dir_def node_at_def)
  have j: "journal echo_world = [Mkdir echo_work]" by (simp add: echo_world_def)
  note dbg = debug_skips_save [where p = ?d and w = echo_world and cd = sample_codec
      and a = "([], [])" and n = "Some ''Echo''" and ld = ?ld]
  note sav = debug_skips_save [where p = ?s and w = echo_world and cd = sample_codec
      and a = "([], [])" and ld = ?ld and s = "''{count}''"]
  from dbg d have 1: "files (snd (snd (unload sample_codec ([], []) ?d echo_world))) = files echo_world"
    by blast
  from dbg d have 2: "fst (unload sample_codec ([], []) ?d echo_world) = Inr ()
        \<and> journal (snd (snd (unload sample_codec ([], []) ?d echo_world))) =
            journal echo_world @ map Unsubscribe (event_handlers ?d) @
            [To_thread Hook_close ([], []), Await Hook_on_close ([], []), Log_warning,
             Print_tree (Some ''Echo'') (content ?ld)]"
    by blast
  from sav s(1-4) have 3: "journal (snd (snd (unload sample_codec ([], []) ?s echo_world))) =
            journal echo_world @ map Unsubscribe (event_handlers ?s) @
            [To_thread Hook_close ([], []), Await Hook_on_close ([], []),
             Save (file_path ?ld) (content ?ld)]"
    by blast
  have 4: "fst (unload sample_codec ([], []) ?s echo_world) = Inr ()
        \<and> files (snd (snd (unload sample_codec ([], []) ?s echo_world))) =
            (files echo_world)(data_path ?s \<mapsto> File ''{count}'')"
    by (rule sav [THEN conjunct2, THEN conjunct2, THEN conjunct2, THEN conjunct1, THEN mp])
      (use s st in \<open>simp add: echo_def quiet_hooks_def format_of_echo_data sample_codec_def\<close>)
  let ?c = "echo\<lparr>overrides := sulky_hooks\<rparr>"
  let ?o = "echo\<lparr>overrides := grumpy_hooks, debug := True\<rparr>"
  have c: "close_hook (overrides ?c) ([], []) = Some (UserError ''no'')"
    "event_handlers ?c = []"
    by (simp_all add: echo_def sulky_hooks_def)
  have o: "close_hook (overrides ?o) ([], []) = None"
    "on_close_hook (overrides ?o) ([], []) = Some (UserError ''boom'')"
    "event_handlers ?o = []"
    by (simp_all add: echo_def grumpy_hooks_def)
  note cls = debug_skips_save [where p = ?c and w = echo_world and cd = sample_codec
      and a = "([], [])" and e = "UserError ''no''"]
  note onc = debug_skips_save [where p = ?o and w = echo_world and cd = sample_codec
      and a = "([], [])" and e = "UserError ''boom''"]
  from cls c(1) have 5: "fst (unload sample_codec ([], []) ?c echo_world) = Inl (UserError ''no'')
        \<and> files (snd (snd (unload sample_codec ([], []) ?c echo_world))) = files echo_world
        \<and> journal (snd (snd (unload sample_codec ([], []) ?c echo_world))) =
            journal echo_world @ map Unsubscribe (event_handlers ?c) @
            [To_thread Hook_close ([], [])]"
    by blast
  from onc o(1,2) have 6: "fst (unload sample_codec ([], []) ?o echo_world) = Inl (UserError ''boom'')
        \<and> files (snd (snd (unload sample_codec ([], []) ?o echo_world))) = files echo_world
        \<and> journal (snd (snd (unload sample_codec ([], []) ?o echo_world))) =
            journal echo_world @ map Unsubscribe (event_handlers ?o) @
            [To_thread Hook_close ([], []), Await Hook_on_close ([], [])]"
    by blast
  have first: "debug ?d
   \<and> fst (unload sample_codec ([], []) ?d echo_world) = Inr ()
   \<and> files (snd (snd (unload sample_codec ([], []) ?d echo_world))) = files echo_world
   \<and> journal (snd (snd (unload sample_codec ([], []) ?d echo_world))) =
       [Mkdir echo_work, To_thread Hook_close ([], []), Await Hook_on_close ([], []),
        Log_warning, Print_tree (Some ''Echo'') [(''count'', JNum 1)]]
   \<and> \<not> debug ?s
   \<and> fst (unload sample_codec ([], []) ?s echo_world) = Inr ()
   \<and> journal (snd (snd (unload sample_codec ([], []) ?s echo_world))) =
       [Mkdir echo_work, To_thread Hook_close ([], []), Await Hook_on_close ([], []),
        Save (Some echo_data) [(''count'', JNum 1)]]
   \<and> files (snd (snd (unload sample_codec ([], []) ?s echo_world))) =
       (files echo_world)(echo_data \<mapsto> File ''{count}'')"
    using 1 2 3 4 d(1,6) s(1,5,6) j by simp
  have second: "close_hook (overrides ?c) ([], []) = Some (UserError ''no'')
   \<and> fst (unload sample_codec ([], []) ?c echo_world) = Inl (UserError ''no'')
   \<and> files (snd (snd (unload sample_codec ([], []) ?c echo_world))) = files echo_world
   \<and> journal (snd (snd (unload sample_codec ([], []) ?c echo_world))) =
       [Mkdir echo_work, To_thread Hook_close ([], [])]
   \<and> close_hook (overrides ?o) ([], []) = None
   \<and> on_close_hook (overrides ?o) ([], []) = Some (UserError ''boom'')
   \<and> fst (unload sample_codec ([], []) ?o echo_world) = Inl (UserError ''boom'')
   \<and> files (snd (snd (unload sample_codec ([], []) ?o echo_world))) = files echo_world
   \<and> journal (snd (snd (unload sample_codec ([], []) ?o echo_world))) =
       [Mkdir echo_work, To_thread Hook_close ([], []), Await Hook_on_close ([], [])]"
    using 5 6 c o j by simp
  from first second show ?thesis by blast
qed

lemma mkdir_echo_work: "mkdir_parents (\<lambda>p. None) echo_work = Inr echo_files"
  by (auto simp: mkdir_parents_def echo_work_def echo_files_def fun_eq_iff)

lemmas init_defs = init_def check_identity_def blank_def getattr_def falsy_def
  join_path_def path_parts_def
  apply_kwd_def resolve_paths_def extract_relative_path_def py_str_def
  check_first_load_def exists_path_def node_at_def emit_def check_work_dir_def is_dir_def

lemma echo_init: "init bot_dirs echo_class False [] bare_world = (Inr echo, echo_world)"
  by (simp add: init_defs echo_class_def bot_dirs_def bare_world_def
        mkdir_echo_work [unfolded echo_work_def] echo_files_def echo_def echo_world_def
        echo_work_def echo_data_def)

lemma yaml_echo_init:
  "init bot_dirs (echo_class\<lparr>cls_save_type := Declared (Some ''yaml'')\<rparr>) False [] bare_world =
     (Inr yaml_echo, echo_world)"
  by (simp add: init_defs echo_class_def bot_dirs_def bare_world_def
        mkdir_echo_work [unfolded echo_work_def] echo_files_def echo_def echo_world_def
        echo_work_def echo_data_def yaml_echo_def yaml_data_def)

text \<open>
  Claim C2, at the failing input. The plugin declares \<^verbatim>\<open>save_type = 'yaml'\<close> and is
  constructed where it has no data yet, so its data file is \<^verbatim>\<open>Echo.yaml\<close>. The
  first load fails with \<^verbatim>\<open>FileNotFoundError\<close>; the handler writes the empty object
  to \<^verbatim>\<open>Echo.json\<close>, the data file is still missing, the second load fails like the
  first, and that \<^verbatim>\<open>FileNotFoundError\<close> is what the caller gets.
\<close>

theorem onload_heals_json_file_only:
  "init bot_dirs (echo_class\<lparr>cls_save_type := Declared (Some ''yaml'')\<rparr>) False [] bare_world =
     (Inr yaml_echo, echo_world)
   \<and> data_path yaml_echo = yaml_data
   \<and> onload sample_codec yaml_echo echo_world =
       (Inl FileNotFoundError, yaml_echo,
        echo_world\<lparr>files := (files echo_world)(echo_data \<mapsto> File ''{}''),
          journal := [Mkdir echo_work, Load (Some yaml_data), Write echo_data ''{}'',
                      Load (Some yaml_data)]\<rparr>)
   \<and> ((files echo_world)(echo_data \<mapsto> File ''{}'')) yaml_data = None"
proof -
  have l1: "loader_load sample_codec \<lparr>file_path = Some yaml_data, content = []\<rparr> echo_files =
      Inl FileNotFoundError"
    by (simp add: loader_load_def node_at_def yaml_data_def echo_files_def echo_work_def)
  have l2: "loader_load sample_codec \<lparr>file_path = Some yaml_data, content = []\<rparr>
      (echo_files(echo_data \<mapsto> File ''{}'')) = Inl FileNotFoundError"
    by (simp add: loader_load_def node_at_def yaml_data_def echo_files_def echo_work_def
          echo_data_def)
  have w: "write_file echo_files echo_data ''{}'' = Inr (echo_files(echo_data \<mapsto> File ''{}''))"
    by (simp add: write_file_def node_at_def echo_files_def echo_work_def echo_data_def)
  have hd: "load_or_heal sample_codec yaml_echo echo_world =
       (Inl FileNotFoundError, yaml_echo,
        echo_world\<lparr>files := (files echo_world)(echo_data \<mapsto> File ''{}''),
          journal := [Mkdir echo_work, Load (Some yaml_data), Write echo_data ''{}'',
                      Load (Some yaml_data)]\<rparr>)"
    by (simp add: load_or_heal_def load_data_def wrap_data_def yaml_echo_def echo_def
          echo_world_def emit_def l1 l2 [unfolded echo_data_def] Let_def load_failure_def
          getattr_def py_str_def join_path_def path_parts_def
          w [unfolded echo_data_def echo_work_def] echo_work_def echo_data_def)
  have "((files echo_world)(echo_data \<mapsto> File ''{}'')) yaml_data = None"
    by (simp add: echo_world_def echo_files_def echo_data_def yaml_data_def echo_work_def)
  moreover have "data_path yaml_echo = yaml_data" by (simp add: yaml_echo_def)
  ultimately show ?thesis using yaml_echo_init hd by (simp add: onload_def)
qed

lemma setattr_keeps_declared:
  "name p \<noteq> Undeclared \<Longrightarrow> name (setattr kw p) \<noteq> Undeclared"
  "version p \<noteq> Undeclared \<Longrightarrow> version (setattr kw p) \<noteq> Undeclared"
  "save_type p \<noteq> Undeclared \<Longrightarrow> save_type (setattr kw p) \<noteq> Undeclared"
  "dependencies p \<noteq> Undeclared \<Longrightarrow> dependencies (setattr kw p) \<noteq> Undeclared"
  by (cases kw; simp add: setattr_def)+

lemma fold_setattr_declared:
  "name p \<noteq> Undeclared \<Longrightarrow> name (fold setattr kwd p) \<noteq> Undeclared"
  "save_type p \<noteq> Undeclared \<Longrightarrow> save_type (fold setattr kwd p) \<noteq> Undeclared"
  "dependencies p \<noteq> Undeclared \<Longrightarrow> dependencies (fold setattr kwd p) \<noteq> Undeclared"
  by (induction kwd arbitrary: p; simp add: setattr_keeps_declared)+

lemma setattr_frame:
  "overrides (setattr kw p) = overrides p" "debug (setattr kw p) = debug p"
  "event_handlers (setattr kw p) = event_handlers p"
  by (cases kw; simp add: setattr_def)+

lemma apply_kwd_declared:
  assumes "name p \<noteq> Undeclared" and "save_type p \<noteq> Undeclared" and "dependencies p \<noteq> Undeclared"
  shows "\<exists>p1 n st. apply_kwd kwd p = Inr p1 \<and> name p1 = Declared n
           \<and> save_type p1 = Declared (Some st) \<and> st \<noteq> []"
proof -
  let ?p1 = "fold setattr kwd p"
  from assms fold_setattr_declared [of p kwd]
  obtain n st d where n: "name ?p1 = Declared n" and st: "save_type ?p1 = Declared st"
    and d: "dependencies ?p1 = Declared d"
    by (cases "name ?p1"; cases "save_type ?p1"; cases "dependencies ?p1") auto
  show ?thesis
    using n st d
    by (cases st) (auto simp: apply_kwd_def Let_def getattr_def falsy_def)
qed

lemma mkdir_from_creates:
  "cs \<noteq> [] \<Longrightarrow> fs (pre @ cs) = None \<Longrightarrow>
   (\<And>k s. k < length cs \<Longrightarrow> fs (pre @ take (Suc k) cs) \<noteq> Some (File s)) \<Longrightarrow>
   \<exists>fs'. mkdir_from fs pre cs = Inr fs' \<and> fs' (pre @ cs) = Some Dir"
proof (induction cs arbitrary: fs pre)
  case Nil
  then show ?case by simp
next
  case (Cons c cs)
  show ?case
  proof (cases "cs = []")
    case True
    with Cons.prems show ?thesis by simp
  next
    case False
    have nofile: "fs (pre @ [c]) \<noteq> Some (File s)" for s
      using Cons.prems(3) [of 0 s] by simp
    show ?thesis
    proof (cases "fs (pre @ [c])")
      case None
      let ?fs = "fs(pre @ [c] \<mapsto> Dir)"
      have a: "?fs ((pre @ [c]) @ cs) = None"
        using Cons.prems(2) False by simp
      have b: "?fs ((pre @ [c]) @ take (Suc k) cs) \<noteq> Some (File s)" if "k < length cs" for k s
        using Cons.prems(3) [of "Suc k" s] that by simp
      from Cons.IH [OF False a b] obtain fs' where
        "mkdir_from ?fs (pre @ [c]) cs = Inr fs'" and "fs' ((pre @ [c]) @ cs) = Some Dir"
        by blast
      with None show ?thesis by (simp del: fun_upd_apply)
    next
      case (Some nd)
      with nofile have nd: "nd = Dir" by (cases nd) auto
      have a: "fs ((pre @ [c]) @ cs) = None"
        using Cons.prems(2) by simp
      have b: "fs ((pre @ [c]) @ take (Suc k) cs) \<noteq> Some (File s)" if "k < length cs" for k s
        using Cons.prems(3) [of "Suc k" s] that by simp
      from Cons.IH [OF False a b] Some nd False show ?thesis by simp
    qed
  qed
qed

lemma mkdir_parents_creates:
  assumes "\<not> exists_path fs p" and "\<not> file_on_the_way fs p"
  shows "\<exists>fs'. mkdir_parents fs p = Inr fs' \<and> is_dir fs' p"
proof -
  from assms(1) have ne: "p \<noteq> []" and none: "fs ([] @ p) = None"
    by (auto simp: exists_path_def node_at_def split: if_splits)
  have "file_on_the_way fs p" if "k < length p" and "fs (take (Suc k) p) = Some (File s)" for k s
    using that by (auto simp: file_on_the_way_def list_ex_iff intro!: bexI [of _ k])
  with assms(2) have "fs ([] @ take (Suc k) p) \<noteq> Some (File s)" if "k < length p" for k s
    using that by auto
  from mkdir_from_creates [OF ne none this] ne show ?thesis
    by (auto simp: mkdir_parents_def is_dir_def node_at_def)
qed

lemma check_first_load_frame:
  "check_first_load p w = (Inr p', w') \<Longrightarrow>
   p' = p\<lparr>first_load := (\<not> exists_path (files w) (work_path p) \<or> \<not> exists_path (files w) (data_path p))\<rparr>"
  by (auto simp: check_first_load_def Let_def split: if_splits sum.splits)

lemma check_first_load_fails: "check_first_load p w = (Inl e, w') \<Longrightarrow> w' = w"
  by (auto simp: check_first_load_def Let_def split: if_splits sum.splits)

lemma resolve_paths_declared:
  assumes "name p = Declared n" and "save_type p = Declared st"
    and "extract_relative_path (plugins_dir ds) (butlast (cls_file cls)) = Some rel"
    and "extract_relative_path (cwd ds) (plugins_dir ds @ rel) = Some rel'"
  shows "resolve_paths ds cls p =
     Inr (p\<lparr>this_file_path := cls_file cls, self_path := plugins_dir ds @ rel,
            work_path := persistent_dir ds @ rel',
            data_path := join_path (persistent_dir ds @ rel') (py_str n @ ''.'' @ py_str st)\<rparr>)"
  using assms by (simp add: resolve_paths_def getattr_def)

lemma init_first_load:
  assumes "init ds cls dbg kwd w = (Inr p, w')"
  shows "first_load p =
     (\<not> exists_path (files w) (work_path p) \<or> \<not> exists_path (files w) (data_path p))"
proof -
  from assms obtain p2 p3 where c: "check_first_load p2 w = (Inr p3, w')"
    and p: "p = p3\<lparr>data := Store \<lparr>file_path = Some (data_path p3), content = []\<rparr>,
                   work_space := work_path p3\<rparr>"
    by (auto simp: init_def split: sum.splits prod.splits)
  from check_first_load_frame [OF c] p show ?thesis by simp
qed

text \<open>
  Claim C8. When construction succeeds, \<^verbatim>\<open>first_load\<close> is true exactly if, in the
  filesystem as construction found it, the work directory or the data file did not
  exist. Lines 123 to 128 are the only assignment: after any sequence of calls on the
  instance, in any world, the flag is what construction made it.
\<close>

theorem first_load_flag:
  assumes "init ds cls dbg kwd w = (Inr p, w')"
  shows "first_load p =
       (\<not> exists_path (files w) (work_path p) \<or> \<not> exists_path (files w) (data_path p))
     \<and> first_load (fst (snd (run co cs p w''))) = first_load p"
  using init_first_load [OF assms] run_first_load [of co cs p w''] by simp

lemma echo_init_seeded:
  "init bot_dirs echo_class False [] seeded_world = (Inr (echo\<lparr>first_load := False\<rparr>), seeded_world)"
  by (simp add: init_defs echo_class_def bot_dirs_def seeded_world_def
        echo_files_def echo_def echo_world_def echo_work_def echo_data_def)

theorem first_load_flag_witness:
  "init bot_dirs echo_class False [] bare_world = (Inr echo, echo_world)
   \<and> \<not> exists_path (files bare_world) (work_path echo)
   \<and> first_load echo
   \<and> first_load (fst (snd (run sample_collaborators (session @ [Onload, Unload ([], [])])
        echo echo_world)))
   \<and> init bot_dirs echo_class False [] seeded_world =
       (Inr (echo\<lparr>first_load := False\<rparr>), seeded_world)
   \<and> exists_path (files seeded_world) (work_path (echo\<lparr>first_load := False\<rparr>))
   \<and> exists_path (files seeded_world) (data_path (echo\<lparr>first_load := False\<rparr>))
   \<and> \<not> first_load (echo\<lparr>first_load := False\<rparr>)
   \<and> \<not> first_load (fst (snd (run sample_collaborators (session @ [Onload, Unload ([], [])])
        (echo\<lparr>first_load := False\<rparr>) seeded_world)))"
proof -
  note a = first_load_flag [OF echo_init, of sample_collaborators
      "session @ [Onload, Unload ([], [])]" echo_world]
  note b = first_load_flag [OF echo_init_seeded, of sample_collaborators
      "session @ [Onload, Unload ([], [])]" seeded_world]
  have x: "\<not> exists_path (files bare_world) (work_path echo)"
    by (simp add: exists_path_def node_at_def bare_world_def echo_def echo_work_def)
  have y: "exists_path (files seeded_world) (work_path (echo\<lparr>first_load := False\<rparr>))"
    "exists_path (files seeded_world) (data_path (echo\<lparr>first_load := False\<rparr>))"
    by (simp_all add: exists_path_def node_at_def seeded_world_def echo_world_def echo_def
          echo_files_def echo_work_def echo_data_def)
  from a b x y echo_init echo_init_seeded show ?thesis by simp
qed

lemma init_identity_fails:
  "check_identity (blank cls) = Inl e \<Longrightarrow> init ds cls dbg kwd w = (Inl e, w)"
  by (simp add: init_def)

lemma check_identity_blank:
  "check_identity (blank cls) =
     (case cls_name cls of
        Undeclared \<Rightarrow> Inl (AttributeError ''name'')
      | Declared n \<Rightarrow>
          if falsy n then Inl (ValueError Missing_name)
          else (case cls_version cls of
                  Undeclared \<Rightarrow> Inl (AttributeError ''version'')
                | Declared v \<Rightarrow> if falsy v then Inl (ValueError Missing_version) else Inr ()))"
  by (simp add: check_identity_def blank_def getattr_def split: attr.splits)

text \<open>
  Claim C10. The identity check of lines 95 to 98 reads the attributes as the subclass
  left them, before line 101 applies the keyword arguments: whatever the keyword
  arguments are (a non-empty name or version among them), construction fails, and
  changes nothing, when the subclass's own name is missing, and likewise when its name
  is in order and its version is missing. A declared attribute that is \<^verbatim>\<open>None\<close> or
  empty gives the \<^verbatim>\<open>ValueError\<close> of the check; an attribute the subclass never
  assigned makes the check's own read of it fail with \<^verbatim>\<open>AttributeError\<close>.
\<close>

theorem identity_check_precedes_kwargs:
  "(cls_name cls = Undeclared \<longrightarrow>
      init ds cls dbg kwd w = (Inl (AttributeError ''name''), w))
   \<and> (cls_name cls = Declared n \<and> falsy n \<longrightarrow>
      init ds cls dbg kwd w = (Inl (ValueError Missing_name), w))
   \<and> (cls_name cls = Declared n \<and> \<not> falsy n \<and> cls_version cls = Undeclared \<longrightarrow>
      init ds cls dbg kwd w = (Inl (AttributeError ''version''), w))
   \<and> (cls_name cls = Declared n \<and> \<not> falsy n \<and> cls_version cls = Declared v \<and> falsy v \<longrightarrow>
      init ds cls dbg kwd w = (Inl (ValueError Missing_version), w))"
  by (auto simp: check_identity_blank intro!: init_identity_fails)

theorem identity_check_precedes_kwargs_witness:
  "init bot_dirs (echo_class\<lparr>cls_name := Undeclared\<rparr>) False
       [Kw_name (Some ''Echo'')] bare_world = (Inl (AttributeError ''name''), bare_world)
   \<and> init bot_dirs (echo_class\<lparr>cls_name := Declared None\<rparr>) False
       [Kw_name (Some ''Echo'')] bare_world = (Inl (ValueError Missing_name), bare_world)
   \<and> init bot_dirs (echo_class\<lparr>cls_name := Declared (Some [])\<rparr>) False
       [Kw_name (Some ''Echo'')] bare_world = (Inl (ValueError Missing_name), bare_world)
   \<and> init bot_dirs (echo_class\<lparr>cls_version := Undeclared\<rparr>) False
       [Kw_version (Some ''1.0'')] bare_world = (Inl (AttributeError ''version''), bare_world)
   \<and> init bot_dirs (echo_class\<lparr>cls_version := Declared (Some [])\<rparr>) False
       [Kw_version (Some ''1.0'')] bare_world = (Inl (ValueError Missing_version), bare_world)"
proof -
  note t = identity_check_precedes_kwargs [where ds = bot_dirs and dbg = False and w = bare_world]
  have 1: "init bot_dirs (echo_class\<lparr>cls_name := Undeclared\<rparr>) False
       [Kw_name (Some ''Echo'')] bare_world = (Inl (AttributeError ''name''), bare_world)"
    using t [where cls = "echo_class\<lparr>cls_name := Undeclared\<rparr>" and kwd = "[Kw_name (Some ''Echo'')]"]
    by simp
  have 2: "init bot_dirs (echo_class\<lparr>cls_name := Declared None\<rparr>) False
       [Kw_name (Some ''Echo'')] bare_world = (Inl (ValueError Missing_name), bare_world)"
    using t [where cls = "echo_class\<lparr>cls_name := Declared None\<rparr>"
        and kwd = "[Kw_name (Some ''Echo'')]" and n = None]
    by (simp add: falsy_def)
  have 3: "init bot_dirs (echo_class\<lparr>cls_name := Declared (Some [])\<rparr>) False
       [Kw_name (Some ''Echo'')] bare_world = (Inl (ValueError Missing_name), bare_world)"
    using t [where cls = "echo_class\<lparr>cls_name := Declared (Some [])\<rparr>"
        and kwd = "[Kw_name (Some ''Echo'')]" and n = "Some []"]
    by (simp add: falsy_def)
  have 4: "init bot_dirs (echo_class\<lparr>cls_version := Undeclared\<rparr>) False
       [Kw_version (Some ''1.0'')] bare_world = (Inl (AttributeError ''version''), bare_world)"
    using t [where cls = "echo_class\<lparr>cls_version := Undeclared\<rparr>"
        and kwd = "[Kw_version (Some ''1.0'')]" and n = "Some ''Echo''"]
    by (simp add: falsy_def echo_class_def)
  have 5: "init bot_dirs (echo_class\<lparr>cls_version := Declared (Some [])\<rparr>) False
       [Kw_version (Some ''1.0'')] bare_world = (Inl (ValueError Missing_version), bare_world)"
    using t [where cls = "echo_class\<lparr>cls_version := Declared (Some [])\<rparr>"
        and kwd = "[Kw_version (Some ''1.0'')]" and n = "Some ''Echo''" and v = "Some []"]
    by (simp add: falsy_def echo_class_def)
  from 1 2 3 4 5 show ?thesis by simp
qed

lemma init_valid:
  assumes "cls_name cls = Declared (Some n)" and "n \<noteq> []"
    and "cls_version cls = Declared (Some v)" and "v \<noteq> []"
    and "cls_save_type cls \<noteq> Undeclared" and "cls_dependencies cls \<noteq> Undeclared"
    and "extract_relative_path (plugins_dir ds) (butlast (cls_file cls)) = Some rel"
    and "extract_relative_path (cwd ds) (plugins_dir ds @ rel) = Some rel'"
  shows "\<exists>p2 nm. name p2 = Declared nm \<and> work_path p2 = persistent_dir ds @ rel'
       \<and> init ds cls dbg kwd w =
           (case check_first_load p2 w of
              (Inl e, w') \<Rightarrow> (Inl e, w')
            | (Inr p3, w') \<Rightarrow>
                (case check_work_dir p3 w' of
                   Inl e \<Rightarrow> (Inl e, w')
                 | Inr u \<Rightarrow>
                     (Inr (p3\<lparr>data := Store \<lparr>file_path = Some (data_path p3), content = []\<rparr>,
                               work_space := work_path p3\<rparr>), w')))"
proof -
  have id: "check_identity (blank cls) = Inr ()"
    using assms(1-4) by (simp add: check_identity_blank falsy_def)
  have "name (blank cls) \<noteq> Undeclared" "save_type (blank cls) \<noteq> Undeclared"
    "dependencies (blank cls) \<noteq> Undeclared"
    using assms(1,5,6) by (simp_all add: blank_def)
  from apply_kwd_declared [OF this, of kwd] obtain p1 nm st where
    p1: "apply_kwd kwd (blank cls) = Inr p1" and nm: "name p1 = Declared nm"
    and st: "save_type p1 = Declared (Some st)"
    by blast
  let ?p1 = "p1\<lparr>debug := dbg, event_handlers := []\<rparr>"
  let ?p2 = "?p1\<lparr>this_file_path := cls_file cls, self_path := plugins_dir ds @ rel,
            work_path := persistent_dir ds @ rel',
            data_path := join_path (persistent_dir ds @ rel')
              (py_str nm @ ''.'' @ py_str (Some st))\<rparr>"
  have "name ?p1 = Declared nm" "save_type ?p1 = Declared (Some st)"
    using nm st by simp_all
  from resolve_paths_declared [OF this assms(7,8)]
  have r: "resolve_paths ds cls ?p1 = Inr ?p2" .
  have "name ?p2 = Declared nm" "work_path ?p2 = persistent_dir ds @ rel'"
    using nm by simp_all
  moreover have "init ds cls dbg kwd w =
           (case check_first_load ?p2 w of
              (Inl e, w') \<Rightarrow> (Inl e, w')
            | (Inr p3, w') \<Rightarrow>
                (case check_work_dir p3 w' of
                   Inl e \<Rightarrow> (Inl e, w')
                 | Inr u \<Rightarrow>
                     (Inr (p3\<lparr>data := Store \<lparr>file_path = Some (data_path p3), content = []\<rparr>,
                               work_space := work_path p3\<rparr>), w')))"
    using id p1 r by (simp add: init_def)
  ultimately show ?thesis by blast
qed

lemma tail_existing_dir:
  assumes "is_dir (files w) (work_path p2)"
  shows "\<exists>p. (case check_first_load p2 w of
              (Inl e, w') \<Rightarrow> (Inl e, w')
            | (Inr p3, w') \<Rightarrow>
                (case check_work_dir p3 w' of
                   Inl e \<Rightarrow> (Inl e, w')
                 | Inr u \<Rightarrow>
                     (Inr (p3\<lparr>data := Store \<lparr>file_path = Some (data_path p3), content = []\<rparr>,
                               work_space := work_path p3\<rparr>), w'))) = (Inr p, w)
           \<and> work_path p = work_path p2"
  using assms
  by (auto simp: check_first_load_def check_work_dir_def Let_def is_dir_def exists_path_def)

lemma tail_not_a_dir:
  assumes "exists_path (files w) (work_path p2)" and "\<not> is_dir (files w) (work_path p2)"
    and "name p2 = Declared nm"
  shows "(case check_first_load p2 w of
              (Inl e, w') \<Rightarrow> (Inl e, w')
            | (Inr p3, w') \<Rightarrow>
                (case check_work_dir p3 w' of
                   Inl e \<Rightarrow> (Inl e, w')
                 | Inr u \<Rightarrow>
                     (Inr (p3\<lparr>data := Store \<lparr>file_path = Some (data_path p3), content = []\<rparr>,
                               work_space := work_path p3\<rparr>), w'))) =
          (Inl (PluginLoadError nm (work_path p2)), w)"
  using assms
  by (auto simp: check_first_load_def check_work_dir_def Let_def getattr_def)

lemma tail_created:
  assumes "\<not> exists_path (files w) (work_path p2)" and "\<not> file_on_the_way (files w) (work_path p2)"
  shows "\<exists>p w'. (case check_first_load p2 w of
              (Inl e, w') \<Rightarrow> (Inl e, w')
            | (Inr p3, w') \<Rightarrow>
                (case check_work_dir p3 w' of
                   Inl e \<Rightarrow> (Inl e, w')
                 | Inr u \<Rightarrow>
                     (Inr (p3\<lparr>data := Store \<lparr>file_path = Some (data_path p3), content = []\<rparr>,
                               work_space := work_path p3\<rparr>), w'))) = (Inr p, w')
           \<and> work_path p = work_path p2 \<and> is_dir (files w') (work_path p)
           \<and> journal w' = journal w @ [Mkdir (work_path p)]"
proof -
  from mkdir_parents_creates [OF assms] obtain fs' where
    "mkdir_parents (files w) (work_path p2) = Inr fs'" and "is_dir fs' (work_path p2)"
    by blast
  with assms(1) show ?thesis
    by (simp add: check_first_load_def check_work_dir_def Let_def)
qed

text \<open>
  Claim C7, as amended. If the subclass's name or version is missing (never assigned,
  \<^verbatim>\<open>None\<close> or empty), construction fails at the identity check and changes
  nothing. For a non-empty name and version, with \<^verbatim>\<open>save_type\<close> and
  \<^verbatim>\<open>dependencies\<close> declared and the paths resolving (the module lies under the
  plugins directory, and that under the working directory): if the work directory is a
  directory, construction succeeds and changes nothing; if it does not exist and no
  regular file stands on the way to it, construction succeeds and has created it; if
  it exists and is not a directory, construction fails with
  \<^verbatim>\<open>PluginLoadError\<close> and changes nothing.
\<close>

theorem construction_outcomes:
  "((case cls_name cls of Undeclared \<Rightarrow> True | Declared x \<Rightarrow> falsy x)
      \<or> (case cls_version cls of Undeclared \<Rightarrow> True | Declared x \<Rightarrow> falsy x) \<longrightarrow>
     (\<exists>e. init ds cls dbg kwd w = (Inl e, w)
        \<and> e \<in> {ValueError Missing_name, ValueError Missing_version,
                AttributeError ''name'', AttributeError ''version''}))
   \<and> (cls_name cls = Declared (Some n) \<and> n \<noteq> []
        \<and> cls_version cls = Declared (Some v) \<and> v \<noteq> []
        \<and> cls_save_type cls \<noteq> Undeclared \<and> cls_dependencies cls \<noteq> Undeclared
        \<and> extract_relative_path (plugins_dir ds) (butlast (cls_file cls)) = Some rel
        \<and> extract_relative_path (cwd ds) (plugins_dir ds @ rel) = Some rel' \<longrightarrow>
       (is_dir (files w) (persistent_dir ds @ rel') \<longrightarrow>
          (\<exists>p. init ds cls dbg kwd w = (Inr p, w) \<and> work_path p = persistent_dir ds @ rel'))
       \<and> (\<not> exists_path (files w) (persistent_dir ds @ rel')
            \<and> \<not> file_on_the_way (files w) (persistent_dir ds @ rel') \<longrightarrow>
          (\<exists>p w'. init ds cls dbg kwd w = (Inr p, w')
             \<and> work_path p = persistent_dir ds @ rel'
             \<and> is_dir (files w') (work_path p)
             \<and> journal w' = journal w @ [Mkdir (work_path p)]))
       \<and> (exists_path (files w) (persistent_dir ds @ rel')
            \<and> \<not> is_dir (files w) (persistent_dir ds @ rel') \<longrightarrow>
          (\<exists>nm. init ds cls dbg kwd w =
             (Inl (PluginLoadError nm (persistent_dir ds @ rel')), w))))"
proof -
  have missing: "(case cls_name cls of Undeclared \<Rightarrow> True | Declared x \<Rightarrow> falsy x)
      \<or> (case cls_version cls of Undeclared \<Rightarrow> True | Declared x \<Rightarrow> falsy x) \<longrightarrow>
     (\<exists>e. init ds cls dbg kwd w = (Inl e, w)
        \<and> e \<in> {ValueError Missing_name, ValueError Missing_version,
                AttributeError ''name'', AttributeError ''version''})"
  proof
    assume "(case cls_name cls of Undeclared \<Rightarrow> True | Declared x \<Rightarrow> falsy x)
      \<or> (case cls_version cls of Undeclared \<Rightarrow> True | Declared x \<Rightarrow> falsy x)"
    then have "\<exists>e. check_identity (blank cls) = Inl e
        \<and> e \<in> {ValueError Missing_name, ValueError Missing_version,
                AttributeError ''name'', AttributeError ''version''}"
      by (auto simp: check_identity_blank split: attr.splits)
    then show "\<exists>e. init ds cls dbg kwd w = (Inl e, w)
        \<and> e \<in> {ValueError Missing_name, ValueError Missing_version,
                AttributeError ''name'', AttributeError ''version''}"
      using init_identity_fails [of cls _ ds dbg kwd w] by blast
  qed
  have valid: "(is_dir (files w) (persistent_dir ds @ rel') \<longrightarrow>
          (\<exists>p. init ds cls dbg kwd w = (Inr p, w) \<and> work_path p = persistent_dir ds @ rel'))
       \<and> (\<not> exists_path (files w) (persistent_dir ds @ rel')
            \<and> \<not> file_on_the_way (files w) (persistent_dir ds @ rel') \<longrightarrow>
          (\<exists>p w'. init ds cls dbg kwd w = (Inr p, w')
             \<and> work_path p = persistent_dir ds @ rel'
             \<and> is_dir (files w') (work_path p)
             \<and> journal w' = journal w @ [Mkdir (work_path p)]))
       \<and> (exists_path (files w) (persistent_dir ds @ rel')
            \<and> \<not> is_dir (files w) (persistent_dir ds @ rel') \<longrightarrow>
          (\<exists>nm. init ds cls dbg kwd w =
             (Inl (PluginLoadError nm (persistent_dir ds @ rel')), w)))"
    if h: "cls_name cls = Declared (Some n) \<and> n \<noteq> []
        \<and> cls_version cls = Declared (Some v) \<and> v \<noteq> []
        \<and> cls_save_type cls \<noteq> Undeclared \<and> cls_dependencies cls \<noteq> Undeclared
        \<and> extract_relative_path (plugins_dir ds) (butlast (cls_file cls)) = Some rel
        \<and> extract_relative_path (cwd ds) (plugins_dir ds @ rel) = Some rel'"
  proof -
    from h init_valid [of cls n v ds rel rel' dbg kwd w] obtain p2 nm where
      nm: "name p2 = Declared nm" and wp: "work_path p2 = persistent_dir ds @ rel'"
      and i: "init ds cls dbg kwd w =
           (case check_first_load p2 w of
              (Inl e, w') \<Rightarrow> (Inl e, w')
            | (Inr p3, w') \<Rightarrow>
                (case check_work_dir p3 w' of
                   Inl e \<Rightarrow> (Inl e, w')
                 | Inr u \<Rightarrow>
                     (Inr (p3\<lparr>data := Store \<lparr>file_path = Some (data_path p3), content = []\<rparr>,
                               work_space := work_path p3\<rparr>), w')))"
      by blast
    show ?thesis
      using tail_existing_dir [of w p2] tail_created [of w p2] tail_not_a_dir [of w p2 nm] nm
      unfolding i wp by blast
  qed
  from missing valid show ?thesis by blast
qed

text \<open>
  The claim as stated fails for a valid name and version where a regular file stands at
  the path of the work directory: construction raises \<^verbatim>\<open>PluginLoadError\<close>.
\<close>

theorem valid_identity_not_a_directory:
  "cls_name echo_class = Declared (Some ''Echo'')
   \<and> cls_version echo_class = Declared (Some ''1.0'')
   \<and> files blocked_world echo_work = Some (File ''x'')
   \<and> init bot_dirs echo_class False [] blocked_world =
       (Inl (PluginLoadError (Some ''Echo'') echo_work), blocked_world)"
  by (simp add: init_defs echo_class_def bot_dirs_def blocked_world_def
        echo_files_def echo_world_def echo_work_def)

theorem construction_outcomes_witness:
  "(\<exists>e. init bot_dirs (echo_class\<lparr>cls_name := Declared (Some [])\<rparr>) False [] bare_world =
          (Inl e, bare_world)
       \<and> e \<in> {ValueError Missing_name, ValueError Missing_version,
               AttributeError ''name'', AttributeError ''version''})
   \<and> \<not> exists_path (files bare_world) echo_work
   \<and> \<not> file_on_the_way (files bare_world) echo_work
   \<and> (\<exists>p w'. init bot_dirs echo_class False [] bare_world = (Inr p, w')
          \<and> work_path p = echo_work \<and> is_dir (files w') (work_path p)
          \<and> journal w' = journal bare_world @ [Mkdir (work_path p)])
   \<and> is_dir (files echo_world) echo_work
   \<and> (\<exists>p. init bot_dirs echo_class False [] echo_world = (Inr p, echo_world)
          \<and> work_path p = echo_work)
   \<and> exists_path (files blocked_world) echo_work
   \<and> \<not> is_dir (files blocked_world) echo_work
   \<and> (\<exists>nm. init bot_dirs echo_class False [] blocked_world =
          (Inl (PluginLoadError nm echo_work), blocked_world))"
proof -
  have rel: "extract_relative_path (plugins_dir bot_dirs) (butlast (cls_file echo_class)) =
      Some [''echo'']"
    and rel': "extract_relative_path (cwd bot_dirs) (plugins_dir bot_dirs @ [''echo'']) =
      Some [''plugins'', ''echo'']"
    and wp: "persistent_dir bot_dirs @ [''plugins'', ''echo''] = echo_work"
    by (simp_all add: extract_relative_path_def bot_dirs_def echo_class_def echo_work_def)
  have valid: "cls_name echo_class = Declared (Some ''Echo'') \<and> ''Echo'' \<noteq> []
        \<and> cls_version echo_class = Declared (Some ''1.0'') \<and> ''1.0'' \<noteq> []
        \<and> cls_save_type echo_class \<noteq> Undeclared \<and> cls_dependencies echo_class \<noteq> Undeclared
        \<and> extract_relative_path (plugins_dir bot_dirs) (butlast (cls_file echo_class)) =
            Some [''echo'']
        \<and> extract_relative_path (cwd bot_dirs) (plugins_dir bot_dirs @ [''echo'']) =
            Some [''plugins'', ''echo'']"
    using rel rel' by (simp add: echo_class_def)
  have absent: "\<not> exists_path (files bare_world) echo_work"
    and clear: "\<not> file_on_the_way (files bare_world) echo_work"
    by (simp_all add: exists_path_def node_at_def file_on_the_way_def list_ex_iff bare_world_def
          echo_work_def)
  have there: "is_dir (files echo_world) echo_work"
    by (simp add: is_dir_def node_at_def echo_world_def echo_files_def echo_work_def)
  have blocked: "exists_path (files blocked_world) echo_work"
    "\<not> is_dir (files blocked_world) echo_work"
    by (simp_all add: exists_path_def is_dir_def node_at_def blocked_world_def echo_work_def)
  have 1: "\<exists>e. init bot_dirs (echo_class\<lparr>cls_name := Declared (Some [])\<rparr>) False [] bare_world =
          (Inl e, bare_world)
       \<and> e \<in> {ValueError Missing_name, ValueError Missing_version,
               AttributeError ''name'', AttributeError ''version''}"
    by (rule construction_outcomes [THEN conjunct1, THEN mp]) (simp add: falsy_def)
  note ok = construction_outcomes [THEN conjunct2, THEN mp, OF valid, unfolded wp]
  have 2: "\<exists>p w'. init bot_dirs echo_class False [] bare_world = (Inr p, w')
          \<and> work_path p = echo_work \<and> is_dir (files w') (work_path p)
          \<and> journal w' = journal bare_world @ [Mkdir (work_path p)]"
    using ok [of bare_world False "[]"] absent clear by blast
  have 3: "\<exists>p. init bot_dirs echo_class False [] echo_world = (Inr p, echo_world)
          \<and> work_path p = echo_work"
    using ok [of echo_world False "[]"] there by blast
  have 4: "\<exists>nm. init bot_dirs echo_class False [] blocked_world =
          (Inl (PluginLoadError nm echo_work), blocked_world)"
    using ok [of blocked_world False "[]"] blocked by blast
  from 1 2 3 4 absent clear there blocked show ?thesis by blast
qed

lemma load_data_store:
  "data p = Store ld \<Longrightarrow> \<exists>ld'. data (fst (snd (load_data cd p w))) = Store ld'"
  by (auto simp: load_data_def Let_def split: sum.splits)

lemma load_or_heal_store: "\<exists>ld. data (fst (snd (load_or_heal cd p w))) = Store ld"
proof -
  let ?p0 = "p\<lparr>data := Store (wrap_data p)\<rparr>"
  obtain r1 p1 w1 where l1: "load_data cd ?p0 w = (r1, p1, w1)"
    by (cases "load_data cd ?p0 w") auto
  from load_data_store [of ?p0 "wrap_data p" cd w] l1 obtain ld1 where p1: "data p1 = Store ld1"
    by auto
  have again: "\<exists>ld. data (fst (snd (load_data cd p1 w'))) = Store ld" for w'
    using load_data_store [OF p1] by simp
  show ?thesis
    using l1 p1 again by (auto simp: load_or_heal_def split: sum.splits)
qed

lemma onload_store: "\<exists>ld. data (fst (snd (onload cd p w))) = Store ld"
proof -
  obtain r1 p1 w1 where l1: "load_or_heal cd p w = (r1, p1, w1)"
    by (cases "load_or_heal cd p w") auto
  with load_or_heal_store [of cd p w] obtain ld where "data p1 = Store ld" by auto
  with l1 show ?thesis
    by (auto simp: onload_def Let_def split: sum.splits option.splits)
qed

lemma onload_identity [simp]:
  "name (fst (snd (onload cd p w))) = name p"
  "debug (fst (snd (onload cd p w))) = debug p"
  "data_path (fst (snd (onload cd p w))) = data_path p"
  "work_path (fst (snd (onload cd p w))) = work_path p"
  using onload_shape [of cd p w] by auto

lemma perform_keeps:
  "name (fst (snd (perform co c p w))) = name p"
  "debug (fst (snd (perform co c p w))) = debug p"
  "data_path (fst (snd (perform co c p w))) = data_path p"
  "work_path (fst (snd (perform co c p w))) = work_path p"
  by (cases c;
      auto simp: perform_def register_handler_def unregister_handler_def
           split: prod.splits if_splits
           dest: arg_cong [where f = "\<lambda>x. name (fst (snd x))"]
                 arg_cong [where f = "\<lambda>x. debug (fst (snd x))"]
                 arg_cong [where f = "\<lambda>x. data_path (fst (snd x))"]
                 arg_cong [where f = "\<lambda>x. work_path (fst (snd x))"])+

lemma perform_store:
  assumes "data p = Store ld"
  shows "\<exists>ld'. data (fst (snd (perform co c p w))) = Store ld'"
proof (cases c)
  case Onload
  with onload_store [of "formats co" p w] show ?thesis
    by (auto simp: perform_def split: prod.splits)
next
  case (Unload a)
  obtain r p' w' where u: "unload (formats co) a p w = (r, p', w')"
    by (cases "unload (formats co) a p w") auto
  with unload_plugin [of "formats co" a p w] have "p' = p" by simp
  with u Unload assms show ?thesis
    by (simp add: perform_def)
qed (use assms in \<open>auto simp: perform_def register_handler_def unregister_handler_def
       split: prod.splits if_splits\<close>)

lemma run_keeps:
  "name (fst (snd (run co cs p w))) = name p \<and> debug (fst (snd (run co cs p w))) = debug p
   \<and> data_path (fst (snd (run co cs p w))) = data_path p
   \<and> work_path (fst (snd (run co cs p w))) = work_path p"
proof (induction cs arbitrary: p w)
  case Nil
  show ?case by simp
next
  case (Cons c cs)
  obtain r p' w' where step: "perform co c p w = (r, p', w')"
    by (cases "perform co c p w") auto
  with perform_keeps [of co c p w] have "name p' = name p" "debug p' = debug p"
    "data_path p' = data_path p" "work_path p' = work_path p"
    by simp_all
  with Cons [of p' w'] step show ?case by (auto split: prod.splits)
qed

lemma run_store:
  "data p = Store ld \<Longrightarrow> \<exists>ld'. data (fst (snd (run co cs p w))) = Store ld'"
proof (induction cs arbitrary: p w ld)
  case Nil
  then show ?case by simp
next
  case (Cons c cs)
  obtain r p' w' where step: "perform co c p w = (r, p', w')"
    by (cases "perform co c p w") auto
  with perform_store [OF Cons.prems, of co c w] obtain ld' where "data p' = Store ld'" by auto
  from Cons.IH [OF this, of w'] step show ?case by (auto split: prod.splits)
qed

lemma init_instance:
  assumes "init ds cls dbg kwd w = (Inr p, w')"
  shows "(\<exists>n. name p = Declared n) \<and> debug p = dbg \<and> event_handlers p = []
     \<and> data p = Store \<lparr>file_path = Some (data_path p), content = []\<rparr>
     \<and> is_dir (files w') (work_path p)"
proof -
  from assms obtain p1 p2 p3 where r: "resolve_paths ds cls (p1\<lparr>debug := dbg, event_handlers := []\<rparr>) = Inr p2"
    and c: "check_first_load p2 w = (Inr p3, w')"
    and d: "check_work_dir p3 w' = Inr ()"
    and p: "p = p3\<lparr>data := Store \<lparr>file_path = Some (data_path p3), content = []\<rparr>,
                   work_space := work_path p3\<rparr>"
    by (auto simp: init_def split: sum.splits prod.splits)
  from r obtain n where "name p2 = Declared n" "debug p2 = dbg" "event_handlers p2 = []"
    by (auto simp: resolve_paths_def getattr_def split: option.splits sum.splits attr.splits)
  moreover from d have "is_dir (files w') (work_path p3)"
    by (auto simp: check_work_dir_def split: if_splits sum.splits)
  ultimately show ?thesis
    using check_first_load_frame [OF c] p by simp
qed

text \<open>
  Every instance that construction yields, after any calls on it, holds a store and a
  declared name and has the debug flag it was constructed with: what the statements about
  the unload sequence assume of an instance.
\<close>

lemma constructed_instance:
  assumes "init ds cls dbg kwd w = (Inr p0, w0)"
  shows "(\<exists>n. name (fst (snd (run co cs p0 w1))) = Declared n)
     \<and> (\<exists>ld. data (fst (snd (run co cs p0 w1))) = Store ld)
     \<and> debug (fst (snd (run co cs p0 w1))) = dbg"
  using init_instance [OF assms] run_keeps [of co cs p0 w1]
    run_store [of p0 "\<lparr>file_path = Some (data_path p0), content = []\<rparr>" co cs w1]
  by auto

text \<open>
  The load sequence where the first load fails with one of the three caught errors: the
  empty object goes to the file named after the plugin with the suffix \<^verbatim>\<open>json\<close> in
  the work directory, and the result is that of the second load.
\<close>

lemma heal_once:
  assumes "data p = Store ld" and "loader_load cd ld (files w) = Inl e" and "load_failure e"
    and "name p = Declared n"
    and "write_file (files w) (join_path (work_path p) (py_str n @ ''.json'')) ''{}'' = Inr fs'"
  shows "load_or_heal cd p w =
     (case loader_load cd ld fs' of
        Inl e' \<Rightarrow>
          (Inl e', p,
           w\<lparr>files := fs',
             journal := journal w @
               [Load (file_path ld), Write (join_path (work_path p) (py_str n @ ''.json'')) ''{}'',
                Load (file_path ld)]\<rparr>)
      | Inr ld' \<Rightarrow>
          (Inr (), p\<lparr>data := Store ld'\<rparr>,
           w\<lparr>files := fs',
             journal := journal w @
               [Load (file_path ld), Write (join_path (work_path p) (py_str n @ ''.json'')) ''{}'',
                Load (file_path ld)]\<rparr>))"
  using assms
  by (simp add: load_or_heal_def load_data_def wrap_data_def Let_def getattr_def emit_def
        split: sum.splits)

end
